theory Spec2Isabelle
  imports Complex_Main "HOL-Library.Sublist"
begin

section \<open>JavaScript values used by the services\<close>

text \<open>
  A JavaScript string is modelled as \<^typ>\<open>string\<close>: one \<^typ>\<open>char\<close> per code unit, for
  code units below 256. A value that may be \<open>undefined\<close> or \<open>null\<close> is an option.
\<close>

text \<open>
  Everything the services throw or receive in a \<open>catch\<close>: an \<open>Error\<close> with its message, an
  axios error with \<open>response?.status\<close>, \<open>response?.data?.error?.message\<close> and its own
  message, or a value that is not an \<open>Error\<close> (a rejected event), given by its \<open>String(...)\<close>.
\<close>

datatype js_error =
    Error string
  | AxiosError "nat option" "string option" string
  | Thrown string

fun instanceof_Error :: "js_error \<Rightarrow> bool" where
  "instanceof_Error (Thrown _) = False"
| "instanceof_Error _ = True"

fun isAxiosError :: "js_error \<Rightarrow> bool" where
  "isAxiosError (AxiosError _ _ _) = True"
| "isAxiosError _ = False"

text \<open>
  \<open>error.message\<close>, read by the services only from an \<open>Error\<close>, and \<open>String(error)\<close>.
\<close>

fun message :: "js_error \<Rightarrow> string" where
  "message (Error m) = m"
| "message (AxiosError _ _ m) = m"
| "message (Thrown s) = []"

fun String_of :: "js_error \<Rightarrow> string" where
  "String_of (Thrown s) = s"
| "String_of e = ''Error: '' @ message e"

text \<open>\<open>error instanceof Error ? error.message : String(error)\<close>.\<close>

definition message_or_String :: "js_error \<Rightarrow> string" where
  "message_or_String error = (if instanceof_Error error then message error else String_of error)"

text \<open>\<open>v || d\<close> for a string that may be undefined: the empty string is falsy.\<close>

definition truthy :: "string option \<Rightarrow> bool" where
  "truthy v = (case v of None \<Rightarrow> False | Some s \<Rightarrow> s \<noteq> [])"

definition or_else :: "string option \<Rightarrow> string \<Rightarrow> string" where
  "or_else v d = (case v of None \<Rightarrow> d | Some s \<Rightarrow> if s = [] then d else s)"

text \<open>\<open>s.startsWith(p)\<close> and \<open>s.includes(sub)\<close>.\<close>

definition startsWith :: "string \<Rightarrow> string \<Rightarrow> bool" where
  "startsWith s p = (take (length p) s = p)"

fun js_includes :: "string \<Rightarrow> string \<Rightarrow> bool" where
  "js_includes [] sub = (sub = [])"
| "js_includes (c # cs) sub = (startsWith (c # cs) sub \<or> js_includes cs sub)"

section \<open>The environment\<close>

text \<open>
  The platform and every collaborator the services call. \<open>isWeb\<close> is
  \<open>Platform.OS === 'web'\<close>. \<open>SecureStore_getItemAsync\<close> rejects (\<open>Inl\<close>) or resolves with a
  string or null. \<open>expoConfig_extra\<close> reads a field of \<open>Constants.expoConfig?.extra\<close>;
  \<open>process_env\<close> is \<open>process.env\<close> (\<open>None\<close> when that object is undefined).
\<close>

record file_info =
  fi_exists :: bool
  fi_size :: nat

record blob =
  blob_size :: nat

record config_env =
  isWeb :: bool
  SecureStore_getItemAsync :: "string \<Rightarrow> js_error + string option"
  expoConfig_extra :: "string \<Rightarrow> string option"
  process_env :: "(string \<Rightarrow> string option) option"

section \<open>utils/apiKeyManager.ts\<close>

text \<open>
  The two literals of \<open>getConfigValue\<close> (part_003, lines 36 and 43) are provider secrets.
  Their tails are not reproduced: the model keeps the prefix of each and a placeholder, and
  uses of them only that they are non-empty and that the first starts with \<open>sk-\<close>.
\<close>

definition hardcodedOpenAIKey :: string where
  "hardcodedOpenAIKey = ''sk-proj-(elided)''"

definition hardcodedGeminiKey :: string where
  "hardcodedGeminiKey = ''AIzaSy(elided)''"

definition getValueFromConfig :: "('a config_env_scheme) \<Rightarrow> string \<Rightarrow> string" where
  "getValueFromConfig env configName =
     (if configName = ''OPENAI_API_KEY'' then
        or_else (expoConfig_extra env ''OPENAI_API_KEY'') ''''
      else if configName = ''GEMINI_API_KEY'' then
        or_else (expoConfig_extra env ''GEMINI_API_KEY'')
          (or_else (expoConfig_extra env ''EXPO_PUBLIC_GEMINI_API_KEY'') '''')
      else if configName = ''SUPABASE_URL'' then
        or_else (expoConfig_extra env ''supabaseUrl'') ''''
      else if configName = ''SUPABASE_KEY'' then
        or_else (expoConfig_extra env ''supabaseKey'') ''''
      else if configName = ''OPENAI_API_URL'' then ''https://api.openai.com/v1''
      else if configName = ''GEMINI_API_URL'' then
        ''https://generativelanguage.googleapis.com/v1''
      else '''')"

definition notConfigured :: "string \<Rightarrow> js_error" where
  "notConfigured configName =
     Error (configName @ '' not configured. Please set in .env file or secure storage.'')"

text \<open>Lines 61-70: the fallback common to both platforms.\<close>

definition commonFallback :: "('a config_env_scheme) \<Rightarrow> string \<Rightarrow> js_error + string" where
  "commonFallback env configName =
     (let configValue = getValueFromConfig env configName
      in if configValue \<noteq> [] then Inr configValue else Inl (notConfigured configName))"

text \<open>Lines 14-70: the body of the \<open>try\<close>.\<close>

definition getConfigValue_try :: "('a config_env_scheme) \<Rightarrow> string \<Rightarrow> js_error + string" where
  "getConfigValue_try env configName =
     (if isWeb env then
        (let configValue = getValueFromConfig env configName
         in if configValue \<noteq> [] then Inr configValue
            else
              (let publicVarName = ''EXPO_PUBLIC_'' @ configName;
                   publicValue = (case process_env env of None \<Rightarrow> None | Some pe \<Rightarrow> pe publicVarName)
               in if truthy publicValue then Inr (or_else publicValue '''')
                  else if configName = ''OPENAI_API_KEY'' then Inr hardcodedOpenAIKey
                  else if configName = ''GEMINI_API_KEY'' then Inr hardcodedGeminiKey
                  else commonFallback env configName))
      else
        (case SecureStore_getItemAsync env configName of
           Inr storedValue \<Rightarrow>
             if truthy storedValue then Inr (or_else storedValue '''')
             else commonFallback env configName
         | Inl secureStoreError \<Rightarrow> commonFallback env configName))"

text \<open>Lines 71-90: the \<open>catch\<close> around it.\<close>

definition getConfigValue :: "('a config_env_scheme) \<Rightarrow> string \<Rightarrow> js_error + string" where
  "getConfigValue env configName =
     (case getConfigValue_try env configName of
        Inr v \<Rightarrow> Inr v
      | Inl error \<Rightarrow>
          if instanceof_Error error then
            (if js_includes (message error) ''not configured'' then Inl error
             else
               (let configValue = getValueFromConfig env configName
                in if configValue \<noteq> [] then Inr configValue
                   else Inl (notConfigured configName)))
          else Inl error)"

definition getOpenAIKey :: "('a config_env_scheme) \<Rightarrow> js_error + string" where
  "getOpenAIKey env = getConfigValue env ''OPENAI_API_KEY''"

definition getGeminiKey :: "('a config_env_scheme) \<Rightarrow> js_error + string" where
  "getGeminiKey env = getConfigValue env ''GEMINI_API_KEY''"

definition getOpenAIUrl :: "('a config_env_scheme) \<Rightarrow> js_error + string" where
  "getOpenAIUrl env = getConfigValue env ''OPENAI_API_URL''"

definition getGeminiUrl :: "('a config_env_scheme) \<Rightarrow> js_error + string" where
  "getGeminiUrl env = getConfigValue env ''GEMINI_API_URL''"

section \<open>JavaScript numbers\<close>

text \<open>
  A JavaScript number is an IEEE 754 binary64 value; every arithmetic operation returns the
  representable value nearest to the exact result, ties going to the even significand.
  A finite number is modelled by the rational it denotes, and \<open>dbl\<close> is that rounding to 53
  significant bits: \<open>ilog2 x\<close> is the exponent \<open>e\<close> with \<open>2 ^ e \<le> x < 2 ^ (e + 1)\<close>, the
  scaled value \<open>x / 2 ^ (e - 52)\<close> lies in \<open>[2 ^ 52, 2 ^ 53)\<close> and is rounded to an integer.
  Infinities, NaN, the sign of zero and the subnormal range are not modelled; the quantities
  of this program (byte counts divided by 2000, divided by a sentence count, multiplied by
  an index) stay far inside the normal range.
\<close>

type_synonym number = rat

fun bits :: "nat \<Rightarrow> nat" where
  "bits n = (if n = 0 then 0 else Suc (bits (n div 2)))"

definition pow2 :: "int \<Rightarrow> rat" where
  "pow2 k = (if 0 \<le> k then 2 ^ nat k else 1 / 2 ^ nat (- k))"

definition ilog2 :: "rat \<Rightarrow> int" where
  "ilog2 x = (if 1 \<le> x then int (bits (nat \<lfloor>x\<rfloor>)) - 1
              else - int (bits (nat (\<lceil>1 / x\<rceil> - 1))))"

definition round_half_even :: "rat \<Rightarrow> int" where
  "round_half_even m =
     (let n = \<lfloor>m\<rfloor>; r = m - of_int n
      in if r < 1 / 2 then n
         else if 1 / 2 < r then n + 1
         else if even n then n else n + 1)"

definition dbl :: "rat \<Rightarrow> number" where
  "dbl x =
     (if x = 0 then 0
      else
        (let u = pow2 (ilog2 \<bar>x\<bar> - 52)
         in sgn x * of_int (round_half_even (\<bar>x\<bar> / u)) * u))"

text \<open>The operators \<open>/\<close> and \<open>*\<close> on numbers, and a decimal literal.\<close>

definition js_div :: "number \<Rightarrow> number \<Rightarrow> number" where
  "js_div a b = dbl (a / b)"

definition js_mul :: "number \<Rightarrow> number \<Rightarrow> number" where
  "js_mul a b = dbl (a * b)"

definition js_sub :: "number \<Rightarrow> number \<Rightarrow> number" where
  "js_sub a b = dbl (a - b)"

definition literal_0_85 :: number where
  "literal_0_85 = dbl (85 / 100)"

definition literal_0_9 :: number where
  "literal_0_9 = dbl (9 / 10)"

section \<open>Strings: white space, trim, case, split\<close>

text \<open>
  The characters matched by \<open>\s\<close> and removed by \<open>trim()\<close>, among code units below 256:
  tab, line feed, vertical tab, form feed, carriage return, space, no-break space.
\<close>

definition is_ws :: "char \<Rightarrow> bool" where
  "is_ws c = (c = CHR 0x09 \<or> c = CHR 0x0A \<or> c = CHR 0x0B \<or> c = CHR 0x0C
              \<or> c = CHR 0x0D \<or> c = CHR 0x20 \<or> c = CHR 0xA0)"

definition trim :: "string \<Rightarrow> string" where
  "trim s = rev (dropWhile is_ws (rev (dropWhile is_ws s)))"

definition is_sentence_end :: "char \<Rightarrow> bool" where
  "is_sentence_end c = (c = CHR ''.'' \<or> c = CHR ''!'' \<or> c = CHR ''?'')"

text \<open>
  \<open>text.split(/(?<=[.!?])\s+/)\<close>. The separator matches at a position whose previous
  character is one of \<open>.!?\<close> and whose next characters are a maximal run of white space.
  \<open>split_sentences prev skipping piece rest\<close> scans \<open>rest\<close>; \<open>prev\<close> is the character before
  it (none at the start), \<open>piece\<close> the current piece reversed, and \<open>skipping\<close> holds while
  the run of a matched separator is consumed. The last piece is pushed at the end of the
  input, also when it is empty.
\<close>

fun split_sentences :: "char option \<Rightarrow> bool \<Rightarrow> string \<Rightarrow> string \<Rightarrow> string list" where
  "split_sentences prev skipping piece [] = [rev piece]"
| "split_sentences prev skipping piece (c # cs) =
     (if skipping then
        (if is_ws c then split_sentences (Some c) True piece cs
         else split_sentences (Some c) False (c # piece) cs)
      else if is_ws c \<and> (case prev of None \<Rightarrow> False | Some p \<Rightarrow> is_sentence_end p) then
        rev piece # split_sentences (Some c) True [] cs
      else split_sentences (Some c) False (c # piece) cs)"

definition js_split_sentences :: "string \<Rightarrow> string list" where
  "js_split_sentences text = split_sentences None False [] text"

section \<open>services/transcriptionService.ts: durations and segments\<close>

record Segment =
  seg_id :: nat
  seg_text :: string
  seg_start :: number
  seg_end :: number
  seg_confidence :: number

record Transcription =
  t_text :: string
  t_confidence :: number
  t_language :: string
  t_duration :: number
  t_segments :: "Segment list"

definition calculateAudioDuration :: "nat \<Rightarrow> number" where
  "calculateAudioDuration fileSize = js_div (of_nat fileSize) 2000"

text \<open>\<open>sentences.map((sentence, index) => ...)\<close>, the index counted from \<open>index\<close>.\<close>

fun map_segments :: "number \<Rightarrow> nat \<Rightarrow> string list \<Rightarrow> Segment list" where
  "map_segments segmentDuration index [] = []"
| "map_segments segmentDuration index (sentence # sentences) =
     \<lparr>seg_id = index,
      seg_text = trim sentence,
      seg_start = js_mul (of_nat index) segmentDuration,
      seg_end = js_mul (of_nat (index + 1)) segmentDuration,
      seg_confidence = literal_0_85\<rparr>
     # map_segments segmentDuration (index + 1) sentences"

definition generateBasicSegments :: "string \<Rightarrow> number \<Rightarrow> Segment list" where
  "generateBasicSegments text totalDuration =
     (let sentences = js_split_sentences text;
          segmentDuration = js_div totalDuration (of_nat (length sentences))
      in map_segments segmentDuration 0 sentences)"

section \<open>More strings\<close>

text \<open>\<open>s.split(sep)\<close> for a one-character separator; the result is never empty.\<close>

fun split_on :: "char \<Rightarrow> string \<Rightarrow> string \<Rightarrow> string list" where
  "split_on sep piece [] = [rev piece]"
| "split_on sep piece (c # cs) =
     (if c = sep then rev piece # split_on sep [] cs else split_on sep (c # piece) cs)"

definition js_split_char :: "char \<Rightarrow> string \<Rightarrow> string list" where
  "js_split_char sep s = split_on sep [] s"

text \<open>\<open>xs.pop()\<close> and \<open>xs[i]\<close>, undefined where there is no element.\<close>

definition pop :: "'a list \<Rightarrow> 'a option" where
  "pop xs = (case rev xs of [] \<Rightarrow> None | x # _ \<Rightarrow> Some x)"

definition at_index :: "'a list \<Rightarrow> nat \<Rightarrow> 'a option" where
  "at_index xs i = (if i < length xs then Some (xs ! i) else None)"

text \<open>\<open>toLowerCase()\<close> on code units below 256: A-Z, and the Latin-1 capitals.\<close>

definition lower_char :: "char \<Rightarrow> char" where
  "lower_char c =
     (let n = (of_char c :: int)
      in if (65 \<le> n \<and> n \<le> 90) \<or> (192 \<le> n \<and> n \<le> 222 \<and> n \<noteq> 215)
         then char_of (n + 32) else c)"

definition toLowerCase :: "string \<Rightarrow> string" where
  "toLowerCase s = map lower_char s"

text \<open>A number in a template literal, as decimal digits.\<close>

fun show_nat :: "nat \<Rightarrow> string" where
  "show_nat n =
     (if n < 10 then [char_of (48 + n)]
      else show_nat (n div 10) @ [char_of (48 + n mod 10)])"

definition show_status :: "nat option \<Rightarrow> string" where
  "show_status statusCode = (case statusCode of None \<Rightarrow> ''undefined'' | Some n \<Rightarrow> show_nat n)"

text \<open>\<open>n || d\<close> for a number that may be undefined: zero is falsy.\<close>

definition or_num :: "number option \<Rightarrow> number \<Rightarrow> number" where
  "or_num v d = (case v of None \<Rightarrow> d | Some n \<Rightarrow> if n = 0 then d else n)"

section \<open>services/transcriptionService.ts: providers and the orchestrator\<close>

text \<open>
  The body \<open>response.data\<close> of a 2xx answer of the speech provider, each field present or
  not, and of the generative provider, reduced to the one path that is read:
  \<open>data?.candidates?.[0]?.content?.parts?.[0]?.text\<close>.
\<close>

record whisper_data =
  w_text :: "string option"
  w_confidence :: "number option"
  w_language :: "string option"
  w_segments :: "Segment list option"

record gemini_data =
  g_text :: "string option"

text \<open>
  The collaborators of the transcription and recorder services, added to those of the key
  manager. \<open>fetch_blob\<close> is \<open>fetch(uri)\<close> followed by \<open>response.blob()\<close>;
  \<open>FileReader_readAsDataURL\<close> resolves with the data URL or rejects; \<open>axios_post_whisper\<close>
  takes the URL, the key sent and the file URI, \<open>axios_post_gemini\<close> the URL, the key, the
  MIME type and the base64 payload; each answers with the body of a 2xx response (\<open>Inr\<close>)
  or rejects. \<open>FileSystem_deleteAsync\<close> resolves (\<open>None\<close>) or rejects. Each collaborator is
  a function: within one environment the same request gets the same answer.
\<close>

record env = config_env +
  FileSystem_getInfoAsync :: "string \<Rightarrow> js_error + file_info"
  FileSystem_readAsStringAsync :: "string \<Rightarrow> js_error + string"
  FileSystem_deleteAsync :: "string \<Rightarrow> js_error option"
  fetch_blob :: "string \<Rightarrow> js_error + blob"
  FileReader_readAsDataURL :: "blob \<Rightarrow> js_error + string"
  axios_post_whisper :: "string \<Rightarrow> string \<Rightarrow> string \<Rightarrow> js_error + whisper_data"
  axios_post_gemini :: "string \<Rightarrow> string \<Rightarrow> string \<Rightarrow> string option \<Rightarrow> js_error + gemini_data"

text \<open>
  What a run does besides returning: the provider requests it sends, in order, the delay
  it inserts, and the release actions on a recording (\<open>URL.revokeObjectURL\<close>,
  \<open>FileSystem.deleteAsync\<close>). A run is the list of these events and its outcome, an
  error thrown (\<open>Inl\<close>) or a value returned.
\<close>

datatype event =
    WhisperPost string string
  | GeminiPost string string string "string option"
  | Wait nat
  | RevokeObjectURL string
  | DeleteAsync string

type_synonym 'a run = "event list \<times> (js_error + 'a)"

definition return :: "'a \<Rightarrow> 'a run" where
  "return x = ([], Inr x)"

definition throw :: "js_error \<Rightarrow> 'a run" where
  "throw e = ([], Inl e)"

definition await :: "js_error + 'a \<Rightarrow> 'a run" where
  "await r = ([], r)"

definition emit :: "event \<Rightarrow> unit run" where
  "emit ev = ([ev], Inr ())"

definition bind :: "'a run \<Rightarrow> ('a \<Rightarrow> 'b run) \<Rightarrow> 'b run" where
  "bind m f =
     (case m of
        (l, Inl e) \<Rightarrow> (l, Inl e)
      | (l, Inr x) \<Rightarrow> (case f x of (l', r) \<Rightarrow> (l @ l', r)))"

definition events :: "'a run \<Rightarrow> event list" where
  "events r = fst r"

definition outcome :: "'a run \<Rightarrow> js_error + 'a" where
  "outcome r = snd r"

definition try_catch :: "'a run \<Rightarrow> (js_error \<Rightarrow> 'a run) \<Rightarrow> 'a run" where
  "try_catch m h =
     (case m of
        (l, Inl e) \<Rightarrow> (case h e of (l', r) \<Rightarrow> (l @ l', r))
      | (l, Inr x) \<Rightarrow> (l, Inr x))"

definition PROXY_SERVER_URL :: string where
  "PROXY_SERVER_URL = ''http://localhost:3001''"

definition audioFileDoesNotExist :: js_error where
  "audioFileDoesNotExist = Error ''Audio file does not exist''"

text \<open>
  \<open>generateBasicSegments(data.text, ...)\<close> with \<open>data.text\<close> undefined: \<open>text.split\<close>
  throws a TypeError, whose message is the engine's.
\<close>

definition splitOfUndefined :: js_error where
  "splitOfUndefined = Error ''Cannot read properties of undefined (reading split)''"

definition safeGetFileInfo :: "('a env_scheme) \<Rightarrow> string \<Rightarrow> js_error + file_info" where
  "safeGetFileInfo env fileUri =
     (if isWeb env then Inr \<lparr>fi_exists = True, fi_size = 1000000\<rparr>
      else FileSystem_getInfoAsync env fileUri)"

text \<open>
  In the branch for blob URLs only the awaited \<open>fetch\<close> and \<open>blob()\<close> are inside the
  \<open>try\<close>; the promise around the \<open>FileReader\<close> is returned unawaited, so its rejection
  is not caught there.
\<close>

definition safeReadAsBase64 :: "('a env_scheme) \<Rightarrow> string \<Rightarrow> js_error + string option" where
  "safeReadAsBase64 env fileUri =
     (if isWeb env then
        (if startsWith fileUri ''data:'' then Inr (at_index (js_split_char CHR '','' fileUri) 1)
         else
           (case fetch_blob env fileUri of
              Inl error \<Rightarrow> Inl (Error ''Could not read audio file on web platform'')
            | Inr blob \<Rightarrow>
                (case FileReader_readAsDataURL env blob of
                   Inl event \<Rightarrow> Inl event
                 | Inr dataUrl \<Rightarrow> Inr (at_index (js_split_char CHR '','' dataUrl) 1))))
      else
        (case FileSystem_readAsStringAsync env fileUri of
           Inl error \<Rightarrow> Inl error
         | Inr base64 \<Rightarrow> Inr (Some base64)))"

text \<open>
  \<open>mimeTypes[extension] || 'audio/m4a'\<close> over the six keys of the table. (For a name that
  every object inherits, such as \<open>constructor\<close>, the source reads the inherited member
  instead of the default; no recording has such an extension.)
\<close>

definition getMimeType :: "string \<Rightarrow> string" where
  "getMimeType extension =
     (if extension = ''m4a'' then ''audio/m4a''
      else if extension = ''mp3'' then ''audio/mpeg''
      else if extension = ''wav'' then ''audio/wav''
      else if extension = ''mpeg'' then ''audio/mpeg''
      else if extension = ''mp4'' then ''audio/mp4''
      else if extension = ''webm'' then ''audio/webm''
      else ''audio/m4a'')"

text \<open>\<open>fileUri.split('.').pop()?.toLowerCase() || 'm4a'\<close>.\<close>

definition extensionOf :: "string \<Rightarrow> string" where
  "extensionOf fileUri =
     or_else (map_option toLowerCase (pop (js_split_char CHR ''.'' fileUri))) ''m4a''"

text \<open>
  The object literal built from a response of the speech provider, fields in source
  order; the last one throws when there are neither segments nor a text.
\<close>

definition whisperResult :: "whisper_data \<Rightarrow> nat \<Rightarrow> js_error + Transcription" where
  "whisperResult data byteSize =
     (case w_segments data of
        Some segments \<Rightarrow>
          Inr \<lparr>t_text = or_else (w_text data) '''',
               t_confidence = or_num (w_confidence data) literal_0_9,
               t_language = or_else (w_language data) ''en'',
               t_duration = calculateAudioDuration byteSize,
               t_segments = segments\<rparr>
      | None \<Rightarrow>
          (case w_text data of
             None \<Rightarrow> Inl splitOfUndefined
           | Some text \<Rightarrow>
               Inr \<lparr>t_text = or_else (w_text data) '''',
                    t_confidence = or_num (w_confidence data) literal_0_9,
                    t_language = or_else (w_language data) ''en'',
                    t_duration = calculateAudioDuration byteSize,
                    t_segments = generateBasicSegments text (calculateAudioDuration byteSize)\<rparr>))"

definition geminiResult :: "gemini_data \<Rightarrow> nat \<Rightarrow> Transcription" where
  "geminiResult data byteSize =
     (let text = or_else (g_text data) ''''
      in \<lparr>t_text = text,
          t_confidence = literal_0_85,
          t_language = ''en'',
          t_duration = calculateAudioDuration byteSize,
          t_segments = generateBasicSegments text (calculateAudioDuration byteSize)\<rparr>)"

text \<open>\<open>axios.post\<close> to a provider: the request is recorded, then answered.\<close>

definition postWhisper :: "('a env_scheme) \<Rightarrow> string \<Rightarrow> string \<Rightarrow> string \<Rightarrow> whisper_data run" where
  "postWhisper env url apiKey fileUri =
     bind (emit (WhisperPost url apiKey)) (\<lambda>_. await (axios_post_whisper env url apiKey fileUri))"

definition postGemini ::
  "('a env_scheme) \<Rightarrow> string \<Rightarrow> string \<Rightarrow> string \<Rightarrow> string option \<Rightarrow> gemini_data run" where
  "postGemini env url apiKey mimeType data =
     bind (emit (GeminiPost url apiKey mimeType data))
       (\<lambda>_. await (axios_post_gemini env url apiKey mimeType data))"

text \<open>\<open>transcribeAudioWithWhisper\<close>, lines 89-217 (the \<open>try\<close>) and 218-233 (the \<open>catch\<close>).\<close>

definition invalidKeyFormat :: js_error where
  "invalidKeyFormat =
     Error (''Invalid OpenAI API key format. API keys should start with ''
            @ [CHR 0x22] @ ''sk-'' @ [CHR 0x22])"

definition transcribeAudioWithWhisper_try :: "('a env_scheme) \<Rightarrow> string \<Rightarrow> Transcription run" where
  "transcribeAudioWithWhisper_try env fileUri =
     bind (await (getOpenAIKey env)) (\<lambda>apiKey.
     bind (await (getOpenAIUrl env)) (\<lambda>baseUrl.
       let OPENAI_API_ENDPOINT = baseUrl @ ''/audio/transcriptions''
       in if apiKey = [] then
            throw (Error ''OPENAI_API_KEY not configured. Please set in .env file or secure storage.'')
          else if isWeb env then
            (if \<not> startsWith apiKey ''sk-'' then throw invalidKeyFormat
             else
               bind (await (safeGetFileInfo env fileUri)) (\<lambda>fileInfo.
                 if \<not> fi_exists fileInfo then throw audioFileDoesNotExist
                 else
                   try_catch
                     (bind (await (fetch_blob env fileUri)) (\<lambda>blob.
                      bind (postWhisper env OPENAI_API_ENDPOINT apiKey fileUri) (\<lambda>data.
                        await (whisperResult data (blob_size blob)))))
                     (\<lambda>apiError.
                        throw (Error (''Whisper API error: '' @ message_or_String apiError)))))
          else
            bind (await (safeGetFileInfo env fileUri)) (\<lambda>fileInfo.
              if \<not> fi_exists fileInfo then throw audioFileDoesNotExist
              else
                bind (postWhisper env OPENAI_API_ENDPOINT apiKey fileUri) (\<lambda>data.
                  await (whisperResult data (fi_size fileInfo))))))"

definition apiErrorMessage :: "js_error \<Rightarrow> string" where
  "apiErrorMessage error =
     (case error of
        AxiosError statusCode apiMessage m \<Rightarrow> or_else apiMessage m
      | _ \<Rightarrow> message error)"

definition statusOf :: "js_error \<Rightarrow> nat option" where
  "statusOf error = (case error of AxiosError statusCode _ _ \<Rightarrow> statusCode | _ \<Rightarrow> None)"

definition transcribeAudioWithWhisper_catch :: "js_error \<Rightarrow> js_error" where
  "transcribeAudioWithWhisper_catch error =
     (if isAxiosError error then
        (if statusOf error = Some 401 then
           Error ''Invalid OpenAI API key. Please check your configuration.''
         else
           Error (''Whisper API error ('' @ show_status (statusOf error) @ ''): ''
                  @ apiErrorMessage error))
      else Error (''Failed to transcribe audio with Whisper: '' @ message_or_String error))"

definition transcribeAudioWithWhisper :: "('a env_scheme) \<Rightarrow> string \<Rightarrow> Transcription run" where
  "transcribeAudioWithWhisper env fileUri =
     try_catch (transcribeAudioWithWhisper_try env fileUri)
       (\<lambda>error. throw (transcribeAudioWithWhisper_catch error))"

text \<open>\<open>transcribeAudioWithGemini\<close>, lines 242-362 (the \<open>try\<close>) and 363-378 (the \<open>catch\<close>).\<close>

definition transcribeAudioWithGemini_try :: "('a env_scheme) \<Rightarrow> string \<Rightarrow> Transcription run" where
  "transcribeAudioWithGemini_try env fileUri =
     bind (await (getGeminiKey env)) (\<lambda>apiKey.
     bind (await (getGeminiUrl env)) (\<lambda>baseUrl.
       if apiKey = [] then
         throw (Error ''Gemini API key not configured. Please set in .env file or secure storage.'')
       else
         bind (await (safeGetFileInfo env fileUri)) (\<lambda>fileInfo.
           if \<not> fi_exists fileInfo then throw audioFileDoesNotExist
           else
             bind (await (safeReadAsBase64 env fileUri)) (\<lambda>base64Audio.
               let extension = extensionOf fileUri;
                   mimeType = getMimeType extension;
                   GEMINI_API_ENDPOINT = baseUrl @ ''/models/gemini-pro:transcribeContent''
               in if isWeb env then
                    try_catch
                      (bind (await (fetch_blob env fileUri)) (\<lambda>blob.
                       bind (postGemini env GEMINI_API_ENDPOINT apiKey mimeType base64Audio) (\<lambda>data.
                         return (geminiResult data (blob_size blob)))))
                      (\<lambda>apiError.
                         throw (Error (''Gemini API error: '' @ message_or_String apiError)))
                  else
                    bind (postGemini env GEMINI_API_ENDPOINT apiKey mimeType base64Audio) (\<lambda>data.
                      return (geminiResult data (fi_size fileInfo)))))))"

definition transcribeAudioWithGemini_catch :: "js_error \<Rightarrow> js_error" where
  "transcribeAudioWithGemini_catch error =
     (if isAxiosError error then
        (if statusOf error = Some 401 \<or> statusOf error = Some 403 then
           Error ''Invalid Gemini API key. Please check your configuration.''
         else
           Error (''Gemini API error ('' @ show_status (statusOf error) @ ''): ''
                  @ apiErrorMessage error))
      else Error (''Failed to transcribe audio with Gemini: '' @ message_or_String error))"

definition transcribeAudioWithGemini :: "('a env_scheme) \<Rightarrow> string \<Rightarrow> Transcription run" where
  "transcribeAudioWithGemini env fileUri =
     try_catch (transcribeAudioWithGemini_try env fileUri)
       (\<lambda>error. throw (transcribeAudioWithGemini_catch error))"

text \<open>
  \<open>transcribeAudio\<close> on the web, after the existence check: lines 405-538. A key whose
  lookup rejects is null. The \<open>catch\<close> of lines 539-542 rethrows what it caught.
\<close>

definition keyOrNull :: "js_error + string \<Rightarrow> string option" where
  "keyOrNull r = (case r of Inl err \<Rightarrow> None | Inr k \<Rightarrow> Some k)"

definition proxyRequired :: js_error where
  "proxyRequired =
     Error (''Transcription on web platforms requires a running proxy server. ''
            @ ''Please start the proxy server with '' @ [CHR 0x22] @ ''npm start'' @ [CHR 0x22]
            @ '' in the proxy-server directory, ''
            @ ''or use the mobile app for direct API access.'')"

definition webGeminiAttempt ::
  "('a env_scheme) \<Rightarrow> string \<Rightarrow> blob \<Rightarrow> string option \<Rightarrow> Transcription run" where
  "webGeminiAttempt env fileUri blob geminiKey =
     (if truthy geminiKey then
        try_catch
          (bind (await (FileReader_readAsDataURL env blob)) (\<lambda>dataUrl.
             let base64Audio = at_index (js_split_char CHR '','' dataUrl) 1;
                 extension = extensionOf fileUri;
                 mimeType = getMimeType extension
             in bind (postGemini env (PROXY_SERVER_URL @ ''/api/gemini'') (or_else geminiKey [])
                        mimeType base64Audio) (\<lambda>data.
                  return (geminiResult data (blob_size blob)))))
          (\<lambda>geminiError. throw geminiError)
      else throw proxyRequired)"

text \<open>
  A \<open>try\<close> statement of the web flow either returns from the function (\<open>Some\<close> result)
  or completes, so that the statements after it run (\<open>None\<close>).
\<close>

definition webWhisperAttempt ::
  "('a env_scheme) \<Rightarrow> string \<Rightarrow> blob \<Rightarrow> string option \<Rightarrow> string option
     \<Rightarrow> Transcription option run" where
  "webWhisperAttempt env fileUri blob openAIKey geminiKey =
     (if truthy openAIKey then
        try_catch
          (bind (postWhisper env (PROXY_SERVER_URL @ ''/api/whisper'') (or_else openAIKey [])
                   fileUri) (\<lambda>data.
           bind (await (whisperResult data (blob_size blob))) (\<lambda>result.
             return (Some result))))
          (\<lambda>whisperError. if \<not> truthy geminiKey then throw whisperError else return None)
      else return None)"

definition transcribeAudio_web_dispatch :: "('a env_scheme) \<Rightarrow> string \<Rightarrow> Transcription run" where
  "transcribeAudio_web_dispatch env fileUri =
     bind (await (fetch_blob env fileUri)) (\<lambda>blob.
       let openAIKey = keyOrNull (getOpenAIKey env);
           geminiKey = keyOrNull (getGeminiKey env)
       in if \<not> truthy openAIKey \<and> \<not> truthy geminiKey then
            throw (Error ''No valid API keys found. Please configure your API keys in the settings.'')
          else
            bind (webWhisperAttempt env fileUri blob openAIKey geminiKey) (\<lambda>returned.
              case returned of
                Some result \<Rightarrow> return result
              | None \<Rightarrow> webGeminiAttempt env fileUri blob geminiKey))"

text \<open>The native flow, lines 544-580.\<close>

definition bothServicesFailed :: "js_error \<Rightarrow> js_error \<Rightarrow> js_error" where
  "bothServicesFailed whisperError geminiError =
     Error (''Transcription failed with both services. ''
            @ ''Please check your API keys and internet connection. ''
            @ ''Whisper error: '' @ message_or_String whisperError @ ''. ''
            @ ''Gemini error: '' @ message_or_String geminiError)"

definition transcribeAudio_native :: "('a env_scheme) \<Rightarrow> string \<Rightarrow> Transcription run" where
  "transcribeAudio_native env fileUri =
     try_catch (transcribeAudioWithWhisper env fileUri)
       (\<lambda>whisperError.
          let isRateLimit = (instanceof_Error whisperError
                \<and> (js_includes (message whisperError) ''429''
                     \<or> js_includes (message whisperError) ''rate limit''))
          in bind (if isRateLimit then emit (Wait 1000) else return ()) (\<lambda>_.
               try_catch (transcribeAudioWithGemini env fileUri)
                 (\<lambda>geminiError. throw (bothServicesFailed whisperError geminiError))))"

text \<open>\<open>transcribeAudio\<close>, lines 386-582.\<close>

definition transcribeAudio :: "('a env_scheme) \<Rightarrow> string \<Rightarrow> Transcription run" where
  "transcribeAudio env fileUri =
     (if fileUri = [] then throw (Error ''No audio file provided for transcription'')
      else if isWeb env then
        try_catch
          (bind (await (safeGetFileInfo env fileUri)) (\<lambda>fileInfo.
             if \<not> fi_exists fileInfo then throw audioFileDoesNotExist
             else transcribeAudio_web_dispatch env fileUri))
          (\<lambda>error. throw error)
      else transcribeAudio_native env fileUri)"

text \<open>A run returns a transcription with the text \<open>t\<close>.\<close>

definition returns_text :: "Transcription run \<Rightarrow> string \<Rightarrow> bool" where
  "returns_text m t = (case outcome m of Inl e \<Rightarrow> False | Inr r \<Rightarrow> t_text r = t)"

section \<open>services/audioRecorderService.ts: releasing the recording\<close>

text \<open>
  The module variables that \<open>cleanupTempFile\<close> reads and writes: the URI of the most recent
  recording and, on the web, its blob.
\<close>

record recorder =
  tempUri :: "string option"
  webAudioBlob :: "blob option"

definition safeDeleteFile :: "('a env_scheme) \<Rightarrow> string \<Rightarrow> unit run" where
  "safeDeleteFile env uri =
     (if \<not> isWeb env then
        bind (emit (DeleteAsync uri)) (\<lambda>_.
          await (case FileSystem_deleteAsync env uri of None \<Rightarrow> Inr () | Some e \<Rightarrow> Inl e))
      else return ())"

text \<open>
  \<open>cleanupTempFile\<close>, lines 206-224; the value of the run is the state of the module
  after it. Nothing is assigned before the one statement that can throw, so the \<open>catch\<close>
  leaves the state as it found it.
\<close>

definition cleanupTempFile :: "('a env_scheme) \<Rightarrow> recorder \<Rightarrow> recorder run" where
  "cleanupTempFile env st =
     try_catch
       (if truthy (tempUri st) then
          (if isWeb env then
             bind (emit (RevokeObjectURL (or_else (tempUri st) []))) (\<lambda>_.
               return (st\<lparr>webAudioBlob := None, tempUri := None\<rparr>))
           else
             bind (safeDeleteFile env (or_else (tempUri st) [])) (\<lambda>_.
               return (st\<lparr>tempUri := None\<rparr>)))
        else return st)
       (\<lambda>error. return st)"

text \<open>
  No release action of \<open>cleanupTempFile\<close> on this state fails: there is no handle stored
  (no release action runs), or the target is the web (\<open>URL.revokeObjectURL\<close> does not
  throw), or \<open>FileSystem.deleteAsync\<close> resolves for the stored handle.
\<close>

definition release_succeeds :: "('a env_scheme) \<Rightarrow> recorder \<Rightarrow> bool" where
  "release_succeeds env st =
     (\<not> truthy (tempUri st) \<or> isWeb env
      \<or> FileSystem_deleteAsync env (or_else (tempUri st) []) = None)"

section \<open>services/geminiService.ts: regular expressions\<close>

text \<open>
  The regular expressions of \<open>extractProcedureType\<close> use literals, the classes \<open>.\<close>,
  \<open>\s\<close> and \<open>[^.\n]\<close> under \<open>*\<close>, \<open>*?\<close> and \<open>+\<close>, alternatives of literals, and one
  capturing group, all with the flag \<open>i\<close>. A pattern is the sequence of its items, the
  group given by the items \<open>Open\<close> and \<open>Close\<close> around its content.
\<close>

datatype cclass = AnyChar | WhiteSpace | NotDotNewline

datatype item =
    Lit string
  | AltLit "string list"
  | Star cclass
  | LazyStar cclass
  | Plus cclass
  | Open
  | Close

text \<open>
  \<open>.\<close> matches every character but the line terminators; \<open>[^.\n]\<close> every character but
  the full stop and the line feed.
\<close>

fun in_class :: "cclass \<Rightarrow> char \<Rightarrow> bool" where
  "in_class AnyChar c = (c \<noteq> CHR 0x0A \<and> c \<noteq> CHR 0x0D)"
| "in_class WhiteSpace c = is_ws c"
| "in_class NotDotNewline c = (c \<noteq> CHR ''.'' \<and> c \<noteq> CHR 0x0A)"

text \<open>
  With the flag \<open>i\<close> two characters match when their canonical forms, the upper-case
  ones, are equal: among code units below 256 these are a-z with A-Z and the Latin-1 small
  letters with their capitals.
\<close>

definition canonical :: "char \<Rightarrow> char" where
  "canonical c =
     (let n = (of_char c :: int)
      in if (97 \<le> n \<and> n \<le> 122) \<or> (224 \<le> n \<and> n \<le> 254 \<and> n \<noteq> 247)
         then char_of (n - 32) else c)"

definition matches_literal :: "string \<Rightarrow> string \<Rightarrow> bool" where
  "matches_literal w s =
     (length w \<le> length s \<and> map canonical (take (length w) s) = map canonical w)"

text \<open>
  The backtracking matcher: \<open>match_items items s opened cap\<close> matches the items against
  a prefix of \<open>s\<close>, trying the choices of each item in the order of the language (more
  characters first for a greedy quantifier, fewer first for a lazy one, alternatives from
  left to right) and the remaining items after each choice. \<open>opened\<close> is the input at the
  opening of the group, \<open>cap\<close> the text captured. The result is the capture of the first
  way to match, or \<open>None\<close> where there is none.
\<close>

function match_items :: "item list \<Rightarrow> string \<Rightarrow> string option \<Rightarrow> string option \<Rightarrow> string option option" where
  "match_items [] s opened cap = Some cap"
| "match_items (Lit w # items) s opened cap =
     (if matches_literal w s then match_items items (drop (length w) s) opened cap else None)"
| "match_items (AltLit [] # items) s opened cap = None"
| "match_items (AltLit (w # ws) # items) s opened cap =
     (case (if matches_literal w s then match_items items (drop (length w) s) opened cap
            else None) of
        Some r \<Rightarrow> Some r
      | None \<Rightarrow> match_items (AltLit ws # items) s opened cap)"
| "match_items (Star c # items) [] opened cap = match_items items [] opened cap"
| "match_items (Star c # items) (x # xs) opened cap =
     (if in_class c x then
        (case match_items (Star c # items) xs opened cap of
           Some r \<Rightarrow> Some r
         | None \<Rightarrow> match_items items (x # xs) opened cap)
      else match_items items (x # xs) opened cap)"
| "match_items (LazyStar c # items) [] opened cap = match_items items [] opened cap"
| "match_items (LazyStar c # items) (x # xs) opened cap =
     (case match_items items (x # xs) opened cap of
        Some r \<Rightarrow> Some r
      | None \<Rightarrow> if in_class c x then match_items (LazyStar c # items) xs opened cap else None)"
| "match_items (Plus c # items) [] opened cap = None"
| "match_items (Plus c # items) (x # xs) opened cap =
     (if in_class c x then match_items (Star c # items) xs opened cap else None)"
| "match_items (Open # items) s opened cap = match_items items s (Some s) cap"
| "match_items (Close # items) s opened cap =
     match_items items s opened
       (case opened of
          None \<Rightarrow> cap
        | Some s0 \<Rightarrow> Some (take (length s0 - length s) s0))"
  by pat_completeness auto

termination
  by (relation "measures
        [\<lambda>(items, s, opened, cap). length items,
         \<lambda>(items, s, opened, cap). (case items of AltLit ws # _ \<Rightarrow> length ws | _ \<Rightarrow> 0),
         \<lambda>(items, s, opened, cap). length s]") auto

text \<open>
  \<open>content.match(pattern)\<close> without the flag \<open>g\<close>: the match at the leftmost position
  that has one. The result is \<open>match[1]\<close> of that match, or \<open>None\<close> for \<open>null\<close>.
\<close>

fun js_match :: "item list \<Rightarrow> string \<Rightarrow> string option option" where
  "js_match pattern [] = match_items pattern [] None None"
| "js_match pattern (x # xs) =
     (case match_items pattern (x # xs) None None of
        Some r \<Rightarrow> Some r
      | None \<Rightarrow> js_match pattern xs)"

text \<open>\<open>content.split(/[.!?]+/)\<close>: the pieces between the maximal runs of \<open>.\<close>, \<open>!\<close>, \<open>?\<close>.\<close>

fun split_runs :: "bool \<Rightarrow> string \<Rightarrow> string \<Rightarrow> string list" where
  "split_runs skipping piece [] = [rev piece]"
| "split_runs skipping piece (c # cs) =
     (if is_sentence_end c then
        (if skipping then split_runs True piece cs
         else rev piece # split_runs True [] cs)
      else split_runs False (c # piece) cs)"

definition js_split_runs :: "string \<Rightarrow> string list" where
  "js_split_runs s = split_runs False [] s"

section \<open>services/geminiService.ts: the procedure type\<close>

definition labelled :: "string \<Rightarrow> item list" where
  "labelled label =
     [Lit label, LazyStar AnyChar, Lit '':'', Star WhiteSpace, Open, Plus NotDotNewline, Close]"

definition patterns :: "item list list" where
  "patterns =
     [labelled ''procedure'',
      labelled ''diagnosis'',
      labelled ''assessment'',
      labelled ''chief complaint'',
      [AltLit [''is'', ''for'', ''with''], Plus WhiteSpace, AltLit [''a'', ''an''],
       Plus WhiteSpace, Open, Plus NotDotNewline,
       AltLit [''surgery'', ''procedure'', ''examination'', ''assessment''], Close]]"

definition commonProcedures :: "string list" where
  "commonProcedures =
     [''appendectomy'', ''cholecystectomy'', ''colonoscopy'', ''endoscopy'',
      ''laparoscopy'', ''biopsy'', ''catheterization'', ''angiogram'',
      ''appendicitis'', ''pneumonia'', ''fracture'', ''hypertension'']"

text \<open>The first loop, lines 257-262: the first pattern with a non-empty capture.\<close>

fun first_capture :: "item list list \<Rightarrow> string \<Rightarrow> string option" where
  "first_capture [] content = None"
| "first_capture (pattern # rest) content =
     (case js_match pattern content of
        Some (Some capture) \<Rightarrow>
          if capture \<noteq> [] then Some (trim capture) else first_capture rest content
      | _ \<Rightarrow> first_capture rest content)"

text \<open>\<open>procedure.charAt(0).toUpperCase() + procedure.slice(1)\<close>.\<close>

definition capitalize :: "string \<Rightarrow> string" where
  "capitalize s = (case s of [] \<Rightarrow> [] | c # cs \<Rightarrow> canonical c # cs)"

text \<open>\<open>words.join(' ')\<close> and \<open>xs.findIndex(p)\<close>.\<close>

fun join_words :: "string list \<Rightarrow> string" where
  "join_words [] = []"
| "join_words [w] = w"
| "join_words (w # ws) = w @ '' '' @ join_words ws"

fun findIndex :: "('a \<Rightarrow> bool) \<Rightarrow> 'a list \<Rightarrow> nat option" where
  "findIndex p [] = None"
| "findIndex p (x # xs) = (if p x then Some 0 else map_option Suc (findIndex p xs))"

text \<open>The body of the second loop, lines 272-297, for a procedure that the content includes.\<close>

definition procedureContext :: "string \<Rightarrow> string \<Rightarrow> string" where
  "procedureContext procedure content =
     (let sentences = js_split_runs content;
          relevantSentence = find (\<lambda>s. js_includes (toLowerCase s) procedure) sentences
      in case relevantSentence of
           None \<Rightarrow> capitalize procedure
         | Some sentence \<Rightarrow>
             if sentence = [] then capitalize procedure
             else
               (let words = js_split_char CHR '' '' sentence
                in case findIndex (\<lambda>w. js_includes (toLowerCase w) procedure) words of
                     None \<Rightarrow> capitalize procedure
                   | Some index \<Rightarrow>
                       if 0 < index then
                         (let start = index - 5;
                              end_index = min (length words) (index + 5)
                          in trim (join_words (take (end_index - start) (drop start words))))
                       else capitalize procedure))"

fun first_procedure :: "string list \<Rightarrow> string \<Rightarrow> string option" where
  "first_procedure [] content = None"
| "first_procedure (procedure # rest) content =
     (if js_includes (toLowerCase content) procedure
      then Some (procedureContext procedure content)
      else first_procedure rest content)"

definition extractProcedureType :: "string \<Rightarrow> string" where
  "extractProcedureType content =
     (case first_capture patterns content of
        Some procedureType \<Rightarrow> procedureType
      | None \<Rightarrow>
          (case first_procedure commonProcedures content of
             Some procedureType \<Rightarrow> procedureType
           | None \<Rightarrow> ''Medical Procedure''))"

section \<open>Sources of a credential, and concrete environments\<close>

text \<open>
  What "this source has no value for the name" means for each source of
  \<open>getConfigValue\<close>: a rejected or falsy read of the secure store, a falsy field of the bundled
  configuration, a falsy (or absent) public environment variable.
\<close>

definition secureStoreEmpty :: "('a config_env_scheme) \<Rightarrow> string \<Rightarrow> bool" where
  "secureStoreEmpty env configName =
     (case SecureStore_getItemAsync env configName of
        Inl _ \<Rightarrow> True
      | Inr storedValue \<Rightarrow> \<not> truthy storedValue)"

definition bundledConfigEmpty :: "('a config_env_scheme) \<Rightarrow> string \<Rightarrow> bool" where
  "bundledConfigEmpty env configName = (getValueFromConfig env configName = [])"

definition publicVarEmpty :: "('a config_env_scheme) \<Rightarrow> string \<Rightarrow> bool" where
  "publicVarEmpty env configName =
     (case process_env env of
        None \<Rightarrow> True
      | Some pe \<Rightarrow> \<not> truthy (pe (''EXPO_PUBLIC_'' @ configName)))"

fun no_value :: "string \<Rightarrow> string option" where
  "no_value _ = None"

fun null_item :: "string \<Rightarrow> js_error + string option" where
  "null_item _ = Inr None"

fun only_public_openai :: "string \<Rightarrow> string option" where
  "only_public_openai k =
     (if k = ''EXPO_PUBLIC_OPENAI_API_KEY'' then Some ''sk-from-public-env'' else None)"

text \<open>A native and a browser target on which every source is empty.\<close>

definition native_empty :: config_env where
  "native_empty =
     \<lparr>isWeb = False, SecureStore_getItemAsync = null_item, expoConfig_extra = no_value,
      process_env = Some no_value\<rparr>"

definition web_empty :: config_env where
  "web_empty =
     \<lparr>isWeb = True, SecureStore_getItemAsync = null_item, expoConfig_extra = no_value,
      process_env = Some no_value\<rparr>"

text \<open>
  A browser target with no device-store value and no bundled configuration, whose bundle
  defines the public variable \<open>EXPO_PUBLIC_OPENAI_API_KEY\<close>.
\<close>

definition web_public_var :: config_env where
  "web_public_var =
     \<lparr>isWeb = True, SecureStore_getItemAsync = null_item, expoConfig_extra = no_value,
      process_env = Some only_public_openai\<rparr>"

section \<open>Exact quotients, and concrete transcripts\<close>

text \<open>
  \<open>exact_split D N\<close>: dividing the duration \<open>D\<close> by \<open>N\<close> and multiplying the quotient by
  each index up to \<open>N\<close> round nothing away, so that the numbers of the program are the
  exact quotient and products.
\<close>

definition exact_split :: "number \<Rightarrow> nat \<Rightarrow> bool" where
  "exact_split D N =
     (js_div D (of_nat N) = D / of_nat N
      \<and> list_all (\<lambda>i. js_mul (of_nat i) (D / of_nat N) = of_nat i * (D / of_nat N))
           [0..<Suc N])"

definition two_sentences :: string where
  "two_sentences = ''Incision made. Wound closed.''"

definition three_sentences :: string where
  "three_sentences = ''a. b. c''"

definition five_sentences :: string where
  "five_sentences = ''a. b. c. d. e.''"

section \<open>Concrete environments for the orchestrator\<close>

text \<open>
  A target with a recording of 4000 bytes, both keys available (from the secure store on
  native, from the embedded fallback on the web), and the two providers answering every
  request with \<open>w\<close> and \<open>g\<close>.
\<close>

definition stored_keys :: "string \<Rightarrow> js_error + string option" where
  "stored_keys k =
     (if k = ''OPENAI_API_KEY'' then Inr (Some ''sk-stored'')
      else if k = ''GEMINI_API_KEY'' then Inr (Some ''gm-stored'')
      else Inr None)"

definition target :: "bool \<Rightarrow> js_error + whisper_data \<Rightarrow> js_error + gemini_data \<Rightarrow> env" where
  "target web w g =
     \<lparr>isWeb = web,
      SecureStore_getItemAsync = stored_keys,
      expoConfig_extra = no_value,
      process_env = Some no_value,
      FileSystem_getInfoAsync = (\<lambda>uri. Inr \<lparr>fi_exists = True, fi_size = 4000\<rparr>),
      FileSystem_readAsStringAsync = (\<lambda>uri. Inr ''QUJD''),
      FileSystem_deleteAsync = (\<lambda>uri. None),
      fetch_blob = (\<lambda>uri. Inr \<lparr>blob_size = 4000\<rparr>),
      FileReader_readAsDataURL = (\<lambda>blob. Inr ''data:audio/webm;base64,QUJD''),
      axios_post_whisper = (\<lambda>url key uri. w),
      axios_post_gemini = (\<lambda>url key mime data. g)\<rparr>"

definition recording :: string where
  "recording = ''file:///cache/recording.m4a''"

definition whisper_answer :: whisper_data where
  "whisper_answer =
     \<lparr>w_text = Some ''Incision made. Wound closed.'', w_confidence = None,
      w_language = None, w_segments = None\<rparr>"

definition gemini_answer :: gemini_data where
  "gemini_answer = \<lparr>g_text = Some ''Patient stable.''\<rparr>"

definition whisper_down :: js_error where
  "whisper_down = Error ''connect ECONNREFUSED whisper''"

definition gemini_down :: js_error where
  "gemini_down = Error ''timeout of 60000ms exceeded''"

text \<open>The primary provider rejecting a request with the status 429.\<close>

definition whisper_rate_limited :: js_error where
  "whisper_rate_limited =
     AxiosError (Some 429) (Some ''Rate limit reached for requests'')
       ''Request failed with status code 429''"

text \<open>A native target on which the recording cannot be deleted, and the state after a recording.\<close>

definition undeletable :: env where
  "undeletable =
     (target False (Inl whisper_down) (Inl gemini_down))
       \<lparr>FileSystem_deleteAsync := (\<lambda>uri. Some (Error ''File is not deletable''))\<rparr>"

definition recorded :: recorder where
  "recorded = \<lparr>tempUri = Some recording, webAudioBlob = None\<rparr>"

section \<open>The leftmost match, and generated notes\<close>

text \<open>
  \<open>content.match(pattern).index\<close>: the position of the leftmost match, \<open>None\<close> where
  \<open>match\<close> returns \<open>null\<close>.
\<close>

fun match_index :: "item list \<Rightarrow> string \<Rightarrow> nat option" where
  "match_index pattern [] =
     (case match_items pattern [] None None of Some r \<Rightarrow> Some 0 | None \<Rightarrow> None)"
| "match_index pattern (x # xs) =
     (case match_items pattern (x # xs) None None of
        Some r \<Rightarrow> Some 0
      | None \<Rightarrow> map_option Suc (match_index pattern xs))"

text \<open>Generated content that contains the line \<open>Diagnosis: Acute appendicitis.\<close>\<close>

definition with_diagnosis_line :: "string \<Rightarrow> string \<Rightarrow> string" where
  "with_diagnosis_line pre post = pre @ ''Diagnosis: Acute appendicitis.'' @ post"

definition note_before :: string where
  "note_before = ''## PATIENT'' @ [CHR 0x0A] @ ''Male, 34 years.'' @ [CHR 0x0A]"

definition note_after :: string where
  "note_after = [CHR 0x0A] @ ''Plan: admit for surgery.''"

text \<open>
  What may precede the line: a line with the label of the first pattern, a heading that
  has the word of that label and no colon, and a line on which the label of the second
  pattern occurs already.
\<close>

definition procedure_line :: string where
  "procedure_line = ''Procedure: Appendectomy.'' @ [CHR 0x0A]"

definition procedure_heading :: string where
  "procedure_heading = ''## PROCEDURE/ASSESSMENT'' @ [CHR 0x0A]"

definition differential_line :: string where
  "differential_line = ''Differential diagnosis: none.'' @ [CHR 0x0A]"

section \<open>Substrings\<close>

lemma startsWith_append: "startsWith (p @ s) p"
  by (simp add: startsWith_def)

lemma startsWith_js_includes: "startsWith s sub \<Longrightarrow> js_includes s sub"
  by (cases s) (simp_all add: startsWith_def)

lemma js_includes_append: "js_includes (p @ sub @ q) sub"
proof (induction p)
  case Nil
  show ?case
    using startsWith_append [of sub q] by (simp add: startsWith_js_includes)
next
  case (Cons c p)
  then show ?case by simp
qed

lemma includes_not_configured:
  "js_includes (message (notConfigured n)) ''not configured''"
proof -
  have "message (notConfigured n)
      = (n @ '' '') @ ''not configured'' @ ''. Please set in .env file or secure storage.''"
    by (simp add: notConfigured_def)
  then show ?thesis
    by (simp only: js_includes_append)
qed

section \<open>Credential resolution\<close>

lemma commonFallback_empty:
  "bundledConfigEmpty env n \<Longrightarrow> commonFallback env n = Inl (notConfigured n)"
  by (simp add: commonFallback_def bundledConfigEmpty_def)

lemma commonFallback_value:
  "\<not> bundledConfigEmpty env n \<Longrightarrow> commonFallback env n = Inr (getValueFromConfig env n)"
  by (simp add: commonFallback_def bundledConfigEmpty_def)

lemma catch_notConfigured:
  "getConfigValue_try env n = Inl (notConfigured m) \<Longrightarrow> getConfigValue env n = Inl (notConfigured m)"
  using includes_not_configured [of m]
  by (simp add: getConfigValue_def notConfigured_def)

lemma getConfigValue_native:
  assumes "\<not> isWeb env"
  shows "getConfigValue env n =
           (if \<not> secureStoreEmpty env n
            then (case SecureStore_getItemAsync env n of
                    Inr (Some v) \<Rightarrow> Inr v | _ \<Rightarrow> Inl (notConfigured n))
            else if \<not> bundledConfigEmpty env n then Inr (getValueFromConfig env n)
            else Inl (notConfigured n))"
proof (cases "secureStoreEmpty env n")
  case True
  then have t: "getConfigValue_try env n = commonFallback env n"
    using assms
    by (auto simp: getConfigValue_try_def secureStoreEmpty_def split: sum.splits)
  show ?thesis
  proof (cases "bundledConfigEmpty env n")
    case True
    with t have "getConfigValue_try env n = Inl (notConfigured n)"
      by (simp add: commonFallback_empty)
    then have "getConfigValue env n = Inl (notConfigured n)"
      by (rule catch_notConfigured)
    with True \<open>secureStoreEmpty env n\<close> show ?thesis by simp
  next
    case False
    with t have "getConfigValue_try env n = Inr (getValueFromConfig env n)"
      by (simp add: commonFallback_value)
    then have "getConfigValue env n = Inr (getValueFromConfig env n)"
      by (simp add: getConfigValue_def)
    with False \<open>secureStoreEmpty env n\<close> show ?thesis by simp
  qed
next
  case False
  then obtain v where v: "SecureStore_getItemAsync env n = Inr (Some v)" "v \<noteq> []"
    by (auto simp: secureStoreEmpty_def truthy_def split: sum.splits option.splits)
  then have "getConfigValue_try env n = Inr v"
    using assms by (simp add: getConfigValue_try_def truthy_def or_else_def)
  then have "getConfigValue env n = Inr v"
    by (simp add: getConfigValue_def)
  with False v show ?thesis by simp
qed

lemma getConfigValue_web_openai:
  assumes "isWeb env" "bundledConfigEmpty env ''OPENAI_API_KEY''"
    "publicVarEmpty env ''OPENAI_API_KEY''"
  shows "getConfigValue env ''OPENAI_API_KEY'' = Inr hardcodedOpenAIKey"
proof -
  have "getConfigValue_try env ''OPENAI_API_KEY'' = Inr hardcodedOpenAIKey"
    using assms
    by (auto simp: getConfigValue_try_def bundledConfigEmpty_def publicVarEmpty_def Let_def
        truthy_def split: option.splits)
  then show ?thesis
    by (simp add: getConfigValue_def)
qed

lemma native_empty_sources:
  "\<not> isWeb native_empty"
  "secureStoreEmpty native_empty n"
  "bundledConfigEmpty native_empty ''OPENAI_API_KEY''"
  "bundledConfigEmpty native_empty ''GEMINI_API_KEY''"
  by (simp_all add: native_empty_def secureStoreEmpty_def bundledConfigEmpty_def
      getValueFromConfig_def or_else_def truthy_def)

lemma web_empty_sources:
  "isWeb web_empty"
  "bundledConfigEmpty web_empty ''OPENAI_API_KEY''"
  "publicVarEmpty web_empty n"
  by (simp_all add: web_empty_def publicVarEmpty_def bundledConfigEmpty_def
      getValueFromConfig_def or_else_def truthy_def)

text \<open>
  C6, as stated, fails: on the browser target with no device-store value and no bundled
  configuration, a public environment variable \<open>EXPO_PUBLIC_OPENAI_API_KEY\<close> is returned
  before the hard-coded key is reached (part_003, lines 25-32).
\<close>

theorem C6_public_var_counterexample:
  "isWeb web_public_var \<and> secureStoreEmpty web_public_var ''OPENAI_API_KEY''
   \<and> bundledConfigEmpty web_public_var ''OPENAI_API_KEY''
   \<and> getConfigValue web_public_var ''OPENAI_API_KEY'' = Inr ''sk-from-public-env''
   \<and> getConfigValue web_public_var ''OPENAI_API_KEY'' \<noteq> Inr hardcodedOpenAIKey"
  by (simp add: web_public_var_def secureStoreEmpty_def bundledConfigEmpty_def
      getValueFromConfig_def or_else_def truthy_def getConfigValue_def getConfigValue_try_def
      hardcodedOpenAIKey_def)

text \<open>
  C6 (amended): resolving \<open>OPENAI_API_KEY\<close> is platform-divergent. On the browser target
  with no bundled configuration value and no public environment variable for the key, it
  returns the embedded hard-coded fallback key; on the native target with the secure store
  and the bundled configuration both empty, it fails with the error whose message says
  \<open>not configured\<close>.
\<close>

theorem C6_platform_divergent_resolution:
  "(isWeb env \<and> bundledConfigEmpty env ''OPENAI_API_KEY'' \<and> publicVarEmpty env ''OPENAI_API_KEY''
      \<longrightarrow> getConfigValue env ''OPENAI_API_KEY'' = Inr hardcodedOpenAIKey)
   \<and> (\<not> isWeb env \<and> secureStoreEmpty env ''OPENAI_API_KEY''
        \<and> bundledConfigEmpty env ''OPENAI_API_KEY''
      \<longrightarrow> (\<exists>e. getConfigValue env ''OPENAI_API_KEY'' = Inl e
              \<and> e = notConfigured ''OPENAI_API_KEY''
              \<and> js_includes (message e) ''not configured''))"
  using getConfigValue_web_openai [of env] getConfigValue_native [of env "''OPENAI_API_KEY''"]
    includes_not_configured [of "''OPENAI_API_KEY''"]
  by auto

theorem C6_platform_divergent_resolution_witness:
  "(isWeb web_empty \<and> bundledConfigEmpty web_empty ''OPENAI_API_KEY''
      \<and> publicVarEmpty web_empty ''OPENAI_API_KEY''
      \<and> getConfigValue web_empty ''OPENAI_API_KEY'' = Inr hardcodedOpenAIKey)
   \<and> (\<not> isWeb native_empty \<and> secureStoreEmpty native_empty ''OPENAI_API_KEY''
      \<and> bundledConfigEmpty native_empty ''OPENAI_API_KEY''
      \<and> getConfigValue native_empty ''OPENAI_API_KEY'' = Inl (notConfigured ''OPENAI_API_KEY''))"
  using C6_platform_divergent_resolution [of web_empty]
    C6_platform_divergent_resolution [of native_empty]
    web_empty_sources native_empty_sources
  by simp

text \<open>
  C7, as stated, fails: on the native target with the secure store and the bundled
  configuration empty, neither provider key resolves to the hard-coded fallback; both
  lookups fail. The hard-coded values sit inside the \<open>isWeb\<close> branch only (part_003,
  lines 16-46).
\<close>

theorem C7_native_fallback_counterexample:
  "\<not> isWeb native_empty
   \<and> getConfigValue native_empty ''OPENAI_API_KEY'' = Inl (notConfigured ''OPENAI_API_KEY'')
   \<and> getConfigValue native_empty ''GEMINI_API_KEY'' = Inl (notConfigured ''GEMINI_API_KEY'')
   \<and> getConfigValue native_empty ''OPENAI_API_KEY'' \<noteq> Inr hardcodedOpenAIKey
   \<and> getConfigValue native_empty ''GEMINI_API_KEY'' \<noteq> Inr hardcodedGeminiKey"
  using getConfigValue_native [of native_empty] native_empty_sources
  by simp

text \<open>
  C7 (amended): on the native target, credential resolution tries the secure on-device
  store, then the bundled configuration, and then fails with the \<open>not configured\<close> error,
  for every name including the two provider keys; the hard-coded fallback is not a source
  on native.
\<close>

theorem C7_native_resolution_order:
  assumes "\<not> isWeb env"
  shows "(\<forall>v. SecureStore_getItemAsync env n = Inr (Some v) \<and> v \<noteq> []
            \<longrightarrow> getConfigValue env n = Inr v)
       \<and> (secureStoreEmpty env n \<and> \<not> bundledConfigEmpty env n
            \<longrightarrow> getConfigValue env n = Inr (getValueFromConfig env n))
       \<and> (secureStoreEmpty env n \<and> bundledConfigEmpty env n
            \<longrightarrow> getConfigValue env n = Inl (notConfigured n))"
  using getConfigValue_native [OF assms, of n]
  by (auto simp: secureStoreEmpty_def truthy_def)

theorem C7_native_resolution_order_witness:
  "\<not> isWeb native_empty
   \<and> secureStoreEmpty native_empty ''GEMINI_API_KEY''
   \<and> bundledConfigEmpty native_empty ''GEMINI_API_KEY''
   \<and> getConfigValue native_empty ''GEMINI_API_KEY'' = Inl (notConfigured ''GEMINI_API_KEY'')"
  using C7_native_resolution_order [of native_empty "''GEMINI_API_KEY''"] native_empty_sources
  by simp

section \<open>Synthesized segments\<close>

text \<open>
  The rounding gives the familiar values: \<open>0.1\<close> is \<open>3602879701896397 / 2 ^ 55\<close>, and
  \<open>3 * 0.1\<close> is \<open>0.30000000000000004\<close>, the double after \<open>0.3\<close>.
\<close>

lemma dbl_one_tenth: "dbl (1 / 10) = 3602879701896397 / 2 ^ 55"
  by code_simp

lemma dbl_three_tenths:
  "js_mul 3 (dbl (1 / 10)) = 1351079888211149 / 2 ^ 52 \<and> dbl (3 / 10) = 5404319552844595 / 2 ^ 54
   \<and> js_mul 3 (dbl (1 / 10)) \<noteq> dbl (3 / 10)"
  by code_simp

lemma dbl_zero: "dbl 0 = 0"
  by (simp add: dbl_def)

lemma js_mul_zero: "js_mul 0 x = 0"
  by (simp add: js_mul_def dbl_zero)

lemma split_sentences_nonempty: "split_sentences prev skipping piece rest \<noteq> []"
  by (induction rest arbitrary: prev skipping piece) auto

lemma js_split_sentences_nonempty: "js_split_sentences s \<noteq> []"
  by (simp add: js_split_sentences_def split_sentences_nonempty)

lemma js_split_sentences_length: "1 \<le> length (js_split_sentences s)"
  using js_split_sentences_nonempty [of s]
  by (cases "js_split_sentences s") simp_all

lemma js_split_sentences_empty: "js_split_sentences [] = [[]]"
  by (simp add: js_split_sentences_def)

lemma length_map_segments: "length (map_segments d k xs) = length xs"
  by (induction xs arbitrary: k) simp_all

lemma nth_map_segments:
  "i < length xs \<Longrightarrow>
   map_segments d k xs ! i =
     \<lparr>seg_id = k + i, seg_text = trim (xs ! i),
      seg_start = js_mul (of_nat (k + i)) d,
      seg_end = js_mul (of_nat (k + i + 1)) d,
      seg_confidence = literal_0_85\<rparr>"
proof (induction xs arbitrary: k i)
  case Nil
  then show ?case by simp
next
  case (Cons x xs)
  show ?case
  proof (cases i)
    case 0
    then show ?thesis by simp
  next
    case (Suc j)
    with Cons.prems have "j < length xs" by simp
    from Cons.IH [OF this, of "k + 1"] Suc show ?thesis by simp
  qed
qed

lemma length_generateBasicSegments:
  "length (generateBasicSegments s D) = length (js_split_sentences s)"
  by (simp add: generateBasicSegments_def Let_def length_map_segments)

lemma nth_generateBasicSegments:
  assumes "i < length (js_split_sentences s)"
  shows "generateBasicSegments s D ! i =
     \<lparr>seg_id = i, seg_text = trim (js_split_sentences s ! i),
      seg_start = js_mul (of_nat i) (js_div D (of_nat (length (js_split_sentences s)))),
      seg_end = js_mul (of_nat (i + 1)) (js_div D (of_nat (length (js_split_sentences s)))),
      seg_confidence = literal_0_85\<rparr>"
  using nth_map_segments [OF assms, of _ 0]
  by (simp add: generateBasicSegments_def Let_def)

lemma exact_split_quotient: "exact_split D N \<Longrightarrow> js_div D (of_nat N) = D / of_nat N"
  by (simp add: exact_split_def)

lemma exact_split_product:
  assumes "exact_split D N" "i \<le> N"
  shows "js_mul (of_nat i) (D / of_nat N) = of_nat i * (D / of_nat N)"
proof -
  have "\<forall>j \<in> set [0..<Suc N]. js_mul (of_nat j) (D / of_nat N) = of_nat j * (D / of_nat N)"
    using assms(1) by (simp add: exact_split_def list_all_iff del: upt_Suc)
  moreover have "i \<in> set [0..<Suc N]"
    using assms(2) by (simp del: upt_Suc)
  ultimately show ?thesis by blast
qed

lemma five_sentences_count: "length (js_split_sentences five_sentences) = 5"
  by code_simp

lemma three_sentences_count: "length (js_split_sentences three_sentences) = 3"
  by code_simp

lemma duration_1000: "calculateAudioDuration 1000 = 1 / 2"
  by code_simp

lemma quotient_half_by_5: "js_div (1 / 2) 5 = 3602879701896397 / 36028797018963968"
  by code_simp

lemma five_third_start:
  "seg_start (generateBasicSegments five_sentences (1 / 2) ! 2)
     = 3602879701896397 / 18014398509481984"
  by code_simp

lemma five_third_end:
  "seg_end (generateBasicSegments five_sentences (1 / 2) ! 2)
     = 1351079888211149 / 4503599627370496"
  by code_simp

lemma five_third_rounded_length:
  "js_sub (1351079888211149 / 4503599627370496) (3602879701896397 / 18014398509481984)
     = 1801439850948199 / 18014398509481984"
  by code_simp

lemma duration_7: "calculateAudioDuration 7 = 8070450532247929 / 2305843009213693952"
  by code_simp

lemma three_last_end:
  "seg_end (last (generateBasicSegments three_sentences (8070450532247929 / 2305843009213693952)))
     = 4035225266123965 / 1152921504606846976"
  by code_simp

text \<open>
  C4, as stated, fails in the arithmetic of the program. With five sentences and a duration
  of 0.5 seconds (1000 bytes), the third segment runs from \<open>2 * 0.1\<close> to \<open>3 * 0.1\<close>, and
  its length is neither the exact quotient nor the computed quotient \<open>0.5 / 5\<close>, with the
  subtraction taken exactly or rounded. With three sentences and a duration of 0.0035
  seconds (7 bytes), the last segment does not end at the duration.
\<close>

theorem C4_rounding_counterexample:
  "length (js_split_sentences five_sentences) = 5
   \<and> seg_end (generateBasicSegments five_sentences (calculateAudioDuration 1000) ! 2)
       - seg_start (generateBasicSegments five_sentences (calculateAudioDuration 1000) ! 2)
       \<noteq> calculateAudioDuration 1000 / 5
   \<and> seg_end (generateBasicSegments five_sentences (calculateAudioDuration 1000) ! 2)
       - seg_start (generateBasicSegments five_sentences (calculateAudioDuration 1000) ! 2)
       \<noteq> js_div (calculateAudioDuration 1000) 5
   \<and> js_sub (seg_end (generateBasicSegments five_sentences (calculateAudioDuration 1000) ! 2))
         (seg_start (generateBasicSegments five_sentences (calculateAudioDuration 1000) ! 2))
       \<noteq> js_div (calculateAudioDuration 1000) 5
   \<and> length (js_split_sentences three_sentences) = 3
   \<and> seg_end (last (generateBasicSegments three_sentences (calculateAudioDuration 7)))
       \<noteq> calculateAudioDuration 7"
  by (simp add: five_sentences_count three_sentences_count duration_1000 quotient_half_by_5
      five_third_start five_third_end five_third_rounded_length duration_7 three_last_end)

text \<open>
  C4 (amended): for every transcript text, which always splits into \<open>N \<ge> 1\<close> sentences,
  and every duration \<open>D\<close>, there are \<open>N\<close> synthesized segments; the first starts at 0;
  consecutive segments are adjacent; segment \<open>i\<close> runs from \<open>i * (D / N)\<close> to
  \<open>(i + 1) * (D / N)\<close>, quotient and products rounded as the program's numbers are. Where
  the quotient and the products are exact (\<open>exact_split D N\<close>), every segment has length
  \<open>D / N\<close> and the last segment ends at \<open>D\<close>, so the segments cover \<open>[0, D]\<close>.
\<close>

theorem C4_segments_partition:
  "length (generateBasicSegments s D) = length (js_split_sentences s)
   \<and> 1 \<le> length (js_split_sentences s)
   \<and> seg_start (generateBasicSegments s D ! 0) = 0
   \<and> (\<forall>i. Suc i < length (js_split_sentences s) \<longrightarrow>
         seg_end (generateBasicSegments s D ! i)
           = seg_start (generateBasicSegments s D ! Suc i))
   \<and> (\<forall>i < length (js_split_sentences s).
         seg_start (generateBasicSegments s D ! i)
           = js_mul (of_nat i) (js_div D (of_nat (length (js_split_sentences s))))
       \<and> seg_end (generateBasicSegments s D ! i)
           = js_mul (of_nat (i + 1)) (js_div D (of_nat (length (js_split_sentences s)))))
   \<and> (exact_split D (length (js_split_sentences s)) \<longrightarrow>
         (\<forall>i < length (js_split_sentences s).
            seg_end (generateBasicSegments s D ! i)
              - seg_start (generateBasicSegments s D ! i)
              = D / of_nat (length (js_split_sentences s)))
       \<and> seg_end (last (generateBasicSegments s D)) = D)"
proof -
  let ?N = "length (js_split_sentences s)"
  let ?segs = "generateBasicSegments s D"
  have len: "length ?segs = ?N"
    by (rule length_generateBasicSegments)
  have pos: "1 \<le> ?N"
    by (rule js_split_sentences_length)
  have nth: "\<And>i. i < ?N \<Longrightarrow>
      seg_start (?segs ! i) = js_mul (of_nat i) (js_div D (of_nat ?N))
      \<and> seg_end (?segs ! i) = js_mul (of_nat (i + 1)) (js_div D (of_nat ?N))"
    by (simp add: nth_generateBasicSegments)
  have first: "seg_start (?segs ! 0) = 0"
    using nth [of 0] js_split_sentences_nonempty [of s] by (simp add: js_mul_zero)
  have adjacent: "\<forall>i. Suc i < ?N \<longrightarrow> seg_end (?segs ! i) = seg_start (?segs ! Suc i)"
    using nth by simp
  have exact: "(\<forall>i < ?N. seg_end (?segs ! i) - seg_start (?segs ! i) = D / of_nat ?N)
      \<and> seg_end (last ?segs) = D" if ex: "exact_split D ?N"
  proof
    show "\<forall>i < ?N. seg_end (?segs ! i) - seg_start (?segs ! i) = D / of_nat ?N"
    proof (intro allI impI)
      fix i assume i: "i < ?N"
      have "seg_end (?segs ! i) = of_nat (i + 1) * (D / of_nat ?N)"
        using nth [OF i] exact_split_quotient [OF ex] exact_split_product [OF ex, of "i + 1"] i
        by simp
      moreover have "seg_start (?segs ! i) = of_nat i * (D / of_nat ?N)"
        using nth [OF i] exact_split_quotient [OF ex] exact_split_product [OF ex, of i] i
        by simp
      ultimately show "seg_end (?segs ! i) - seg_start (?segs ! i) = D / of_nat ?N"
        by (simp add: algebra_simps add_divide_distrib)
    qed
  next
    have ne: "?segs \<noteq> []"
      using len pos by auto
    have "last ?segs = ?segs ! (?N - 1)"
      using last_conv_nth [OF ne] len by simp
    moreover have "seg_end (?segs ! (?N - 1)) = of_nat ?N * (D / of_nat ?N)"
      using nth [of "?N - 1"] pos exact_split_quotient [OF ex]
        exact_split_product [OF ex, of ?N]
      by simp
    ultimately show "seg_end (last ?segs) = D"
      using js_split_sentences_nonempty [of s] by simp
  qed
  from len pos first adjacent nth exact show ?thesis
    by blast
qed

theorem C4_segments_partition_witness:
  "exact_split 4 (length (js_split_sentences two_sentences))
   \<and> length (generateBasicSegments two_sentences 4) = 2
   \<and> seg_start (generateBasicSegments two_sentences 4 ! 0) = 0
   \<and> seg_end (generateBasicSegments two_sentences 4 ! 0) = 2
   \<and> seg_start (generateBasicSegments two_sentences 4 ! 1) = 2
   \<and> seg_end (generateBasicSegments two_sentences 4 ! 1) = 4
   \<and> seg_end (last (generateBasicSegments two_sentences 4)) = 4"
proof -
  have n: "length (js_split_sentences two_sentences) = 2"
    by code_simp
  have ex: "exact_split 4 (length (js_split_sentences two_sentences))"
    by code_simp
  have q: "js_div 4 (of_nat 2) = 2" "js_mul 0 2 = 0" "js_mul 1 2 = 2" "js_mul 2 2 = 4"
    by code_simp+
  show ?thesis
    using C4_segments_partition [of two_sentences 4] ex n q
    by (simp add: numeral_2_eq_2)
qed

text \<open>
  C5, as stated, fails: the empty string does not split into zero sentences. The split
  returns the one-element list holding the empty string, and one segment is synthesized.
\<close>

theorem C5_empty_text_counterexample:
  "js_split_sentences '''' = ['''']
   \<and> generateBasicSegments '''' 7 \<noteq> []
   \<and> length (generateBasicSegments '''' 7) = 1
   \<and> seg_text (generateBasicSegments '''' 7 ! 0) = ''''
   \<and> seg_start (generateBasicSegments '''' 7 ! 0) = 0
   \<and> seg_end (generateBasicSegments '''' 7 ! 0) = 7"
  by code_simp

text \<open>
  C5 (amended): no transcript text contains zero sentences. Every text, the empty
  string included, splits into at least one sentence, so the divisor of the segment
  duration is never zero and segment synthesis never produces an empty list; for the empty
  string it produces exactly one segment, with index 0, empty text and start 0.
\<close>

theorem C5_at_least_one_segment:
  "js_split_sentences s \<noteq> []
   \<and> (of_nat (length (js_split_sentences s)) :: number) \<noteq> 0
   \<and> generateBasicSegments s D \<noteq> []
   \<and> generateBasicSegments '''' D =
       [\<lparr>seg_id = 0, seg_text = '''', seg_start = 0,
         seg_end = js_mul 1 (js_div D 1), seg_confidence = literal_0_85\<rparr>]"
proof -
  have "generateBasicSegments s D \<noteq> []"
    using length_generateBasicSegments [of s D] js_split_sentences_length [of s]
    by auto
  moreover have "generateBasicSegments '''' D =
       [\<lparr>seg_id = 0, seg_text = '''', seg_start = 0,
         seg_end = js_mul 1 (js_div D 1), seg_confidence = literal_0_85\<rparr>]"
    by (simp add: generateBasicSegments_def js_split_sentences_empty js_mul_zero trim_def)
  ultimately show ?thesis
    using js_split_sentences_nonempty [of s] by simp
qed

section \<open>Runs: events and outcomes\<close>

lemma events_return [simp]: "events (return x) = []"
  and outcome_return [simp]: "outcome (return x) = Inr x"
  and events_throw [simp]: "events (throw e) = []"
  and outcome_throw [simp]: "outcome (throw e) = Inl e"
  and events_await [simp]: "events (await r) = []"
  and outcome_await [simp]: "outcome (await r) = r"
  and events_emit [simp]: "events (emit ev) = [ev]"
  and outcome_emit [simp]: "outcome (emit ev) = Inr ()"
  by (simp_all add: events_def outcome_def return_def throw_def await_def emit_def)

lemma events_bind:
  "events (bind m f) =
     events m @ (case outcome m of Inl e \<Rightarrow> [] | Inr x \<Rightarrow> events (f x))"
  by (cases m) (auto simp: events_def outcome_def bind_def split: sum.splits prod.splits)

lemma outcome_bind:
  "outcome (bind m f) = (case outcome m of Inl e \<Rightarrow> Inl e | Inr x \<Rightarrow> outcome (f x))"
  by (cases m) (auto simp: events_def outcome_def bind_def split: sum.splits prod.splits)

lemma events_try_catch:
  "events (try_catch m h) =
     events m @ (case outcome m of Inl e \<Rightarrow> events (h e) | Inr x \<Rightarrow> [])"
  by (cases m) (auto simp: events_def outcome_def try_catch_def split: sum.splits prod.splits)

lemma outcome_try_catch:
  "outcome (try_catch m h) = (case outcome m of Inl e \<Rightarrow> outcome (h e) | Inr x \<Rightarrow> Inr x)"
  by (cases m) (auto simp: events_def outcome_def try_catch_def split: sum.splits prod.splits)

lemma try_catch_rethrow: "try_catch m (\<lambda>error. throw error) = m"
  by (cases m) (auto simp: try_catch_def throw_def split: sum.splits)

lemmas run_simps = events_bind outcome_bind events_try_catch outcome_try_catch

lemma events_postWhisper [simp]: "events (postWhisper env u k uri) = [WhisperPost u k]"
  and outcome_postWhisper [simp]: "outcome (postWhisper env u k uri) = axios_post_whisper env u k uri"
  by (simp_all add: postWhisper_def run_simps)

lemma events_postGemini [simp]: "events (postGemini env u k m b) = [GeminiPost u k m b]"
  and outcome_postGemini [simp]: "outcome (postGemini env u k m b) = axios_post_gemini env u k m b"
  by (simp_all add: postGemini_def run_simps)

section \<open>The two provider attempts\<close>

lemma whisperResult_Inl: "whisperResult d n = Inl e \<Longrightarrow> w_text d = None"
  by (auto simp: whisperResult_def split: option.splits)

lemma whisperResult_Inr: "whisperResult d n = Inr r \<Longrightarrow> w_text d = Some t \<Longrightarrow> t_text r = t"
  by (auto simp: whisperResult_def or_else_def split: option.splits if_splits)

lemma geminiResult_text: "g_text g = Some t \<Longrightarrow> t_text (geminiResult g n) = t"
  by (simp add: geminiResult_def or_else_def Let_def)

lemma whisper_try_events:
  "ev \<in> set (events (transcribeAudioWithWhisper_try env uri)) \<Longrightarrow> \<exists>u k. ev = WhisperPost u k"
  by (auto simp: transcribeAudioWithWhisper_try_def run_simps Let_def
      split: sum.splits if_splits)

lemma returns_text_iff:
  "returns_text m t \<longleftrightarrow> (\<exists>r. outcome m = Inr r \<and> t_text r = t)"
  by (auto simp: returns_text_def split: sum.splits)

lemma whisper_try_success:
  assumes "WhisperPost u k \<in> set (events (transcribeAudioWithWhisper_try env uri))"
    and "axios_post_whisper env u k uri = Inr d" and "w_text d = Some t"
  shows "returns_text (transcribeAudioWithWhisper_try env uri) t"
proof (cases "isWeb env")
  case True
  with assms show ?thesis
    by (auto simp: transcribeAudioWithWhisper_try_def returns_text_def run_simps Let_def
        dest: whisperResult_Inl whisperResult_Inr split: sum.splits if_splits)
next
  case False
  with assms show ?thesis
    by (auto simp: transcribeAudioWithWhisper_try_def returns_text_def run_simps Let_def
        dest: whisperResult_Inl whisperResult_Inr split: sum.splits if_splits)
qed

lemma whisper_events:
  "ev \<in> set (events (transcribeAudioWithWhisper env uri)) \<Longrightarrow> \<exists>u k. ev = WhisperPost u k"
  using whisper_try_events [of ev env uri]
  by (auto simp: transcribeAudioWithWhisper_def run_simps split: sum.splits)

lemma whisper_success:
  assumes "WhisperPost u k \<in> set (events (transcribeAudioWithWhisper env uri))"
    and "axios_post_whisper env u k uri = Inr d" and "w_text d = Some t"
  shows "returns_text (transcribeAudioWithWhisper env uri) t"
proof -
  have "WhisperPost u k \<in> set (events (transcribeAudioWithWhisper_try env uri))"
    using assms(1) by (auto simp: transcribeAudioWithWhisper_def run_simps split: sum.splits)
  from whisper_try_success [OF this assms(2,3)] show ?thesis
    by (auto simp: transcribeAudioWithWhisper_def returns_text_def run_simps split: sum.splits)
qed

lemma whisper_error_is_Error:
  "outcome (transcribeAudioWithWhisper env uri) = Inl e \<Longrightarrow> \<exists>m. e = Error m"
  by (auto simp: transcribeAudioWithWhisper_def transcribeAudioWithWhisper_catch_def run_simps
      split: sum.splits if_splits)

lemma gemini_try_events:
  "ev \<in> set (events (transcribeAudioWithGemini_try env uri)) \<Longrightarrow> \<exists>u k m b. ev = GeminiPost u k m b"
  by (auto simp: transcribeAudioWithGemini_try_def run_simps Let_def
      split: sum.splits if_splits)

lemma gemini_try_success:
  assumes "GeminiPost u k m b \<in> set (events (transcribeAudioWithGemini_try env uri))"
    and "axios_post_gemini env u k m b = Inr g" and "g_text g = Some t"
  shows "returns_text (transcribeAudioWithGemini_try env uri) t"
proof (cases "isWeb env")
  case True
  with assms show ?thesis
    by (auto simp: transcribeAudioWithGemini_try_def returns_text_def run_simps Let_def
        geminiResult_text split: sum.splits if_splits)
next
  case False
  with assms show ?thesis
    by (auto simp: transcribeAudioWithGemini_try_def returns_text_def run_simps Let_def
        geminiResult_text split: sum.splits if_splits)
qed

lemma gemini_events:
  "ev \<in> set (events (transcribeAudioWithGemini env uri)) \<Longrightarrow> \<exists>u k m b. ev = GeminiPost u k m b"
  using gemini_try_events [of ev env uri]
  by (auto simp: transcribeAudioWithGemini_def run_simps split: sum.splits)

lemma gemini_success:
  assumes "GeminiPost u k m b \<in> set (events (transcribeAudioWithGemini env uri))"
    and "axios_post_gemini env u k m b = Inr g" and "g_text g = Some t"
  shows "returns_text (transcribeAudioWithGemini env uri) t"
proof -
  have "GeminiPost u k m b \<in> set (events (transcribeAudioWithGemini_try env uri))"
    using assms(1) by (auto simp: transcribeAudioWithGemini_def run_simps split: sum.splits)
  from gemini_try_success [OF this assms(2,3)] show ?thesis
    by (auto simp: transcribeAudioWithGemini_def returns_text_def run_simps split: sum.splits)
qed

lemma gemini_error_is_Error:
  "outcome (transcribeAudioWithGemini env uri) = Inl e \<Longrightarrow> \<exists>m. e = Error m"
  by (auto simp: transcribeAudioWithGemini_def transcribeAudioWithGemini_catch_def run_simps
      split: sum.splits if_splits)

section \<open>The native flow\<close>

lemma native_events:
  "events (transcribeAudio_native env uri) =
     events (transcribeAudioWithWhisper env uri)
     @ (case outcome (transcribeAudioWithWhisper env uri) of
          Inr r \<Rightarrow> []
        | Inl whisperError \<Rightarrow>
            (if instanceof_Error whisperError
                \<and> (js_includes (message whisperError) ''429''
                     \<or> js_includes (message whisperError) ''rate limit'')
             then [Wait 1000] else [])
            @ events (transcribeAudioWithGemini env uri))"
  by (auto simp: transcribeAudio_native_def run_simps Let_def split: sum.splits)

lemma native_outcome:
  "outcome (transcribeAudio_native env uri) =
     (case outcome (transcribeAudioWithWhisper env uri) of
        Inr r \<Rightarrow> Inr r
      | Inl whisperError \<Rightarrow>
          (case outcome (transcribeAudioWithGemini env uri) of
             Inr r \<Rightarrow> Inr r
           | Inl geminiError \<Rightarrow> Inl (bothServicesFailed whisperError geminiError)))"
  by (auto simp: transcribeAudio_native_def run_simps Let_def split: sum.splits)

lemma native_primary_success:
  assumes "WhisperPost u k \<in> set (events (transcribeAudio_native env uri))"
    and "axios_post_whisper env u k uri = Inr d" and "w_text d = Some t"
  shows "returns_text (transcribeAudio_native env uri) t
       \<and> events (transcribeAudio_native env uri) = events (transcribeAudioWithWhisper env uri)"
proof -
  have "WhisperPost u k \<in> set (events (transcribeAudioWithWhisper env uri))"
    using assms(1) gemini_events [of "WhisperPost u k" env uri]
    by (auto simp: native_events split: sum.splits if_splits)
  from whisper_success [OF this assms(2,3)] show ?thesis
    by (auto simp: returns_text_def native_events native_outcome split: sum.splits)
qed

lemma native_secondary_success:
  assumes "GeminiPost u k m b \<in> set (events (transcribeAudio_native env uri))"
    and "axios_post_gemini env u k m b = Inr g" and "g_text g = Some t"
  shows "returns_text (transcribeAudio_native env uri) t"
proof (cases "outcome (transcribeAudioWithWhisper env uri)")
  case (Inl whisperError)
  then have "GeminiPost u k m b \<in> set (events (transcribeAudioWithGemini env uri))"
    using assms(1) whisper_events [of "GeminiPost u k m b" env uri]
    by (auto simp: native_events split: if_splits)
  from gemini_success [OF this assms(2,3)] Inl show ?thesis
    by (auto simp: returns_text_def native_outcome split: sum.splits)
next
  case (Inr r)
  then have "GeminiPost u k m b \<in> set (events (transcribeAudioWithWhisper env uri))"
    using assms(1) by (simp add: native_events)
  with whisper_events [of "GeminiPost u k m b" env uri] show ?thesis
    by auto
qed

lemma native_both_fail:
  assumes "outcome (transcribeAudioWithWhisper env uri) = Inl whisperError"
    and "outcome (transcribeAudioWithGemini env uri) = Inl geminiError"
  shows "outcome (transcribeAudio_native env uri) = Inl (bothServicesFailed whisperError geminiError)
       \<and> js_includes (message (bothServicesFailed whisperError geminiError)) (message whisperError)
       \<and> js_includes (message (bothServicesFailed whisperError geminiError)) (message geminiError)"
proof -
  obtain wm gm where e: "whisperError = Error wm" "geminiError = Error gm"
    using whisper_error_is_Error [OF assms(1)] gemini_error_is_Error [OF assms(2)] by blast
  have w: "js_includes ((''Transcription failed with both services. ''
            @ ''Please check your API keys and internet connection. ''
            @ ''Whisper error: '') @ wm @ (''. '' @ ''Gemini error: '' @ gm)) wm"
    by (rule js_includes_append)
  have g: "js_includes ((''Transcription failed with both services. ''
            @ ''Please check your API keys and internet connection. ''
            @ ''Whisper error: '' @ wm @ ''. '' @ ''Gemini error: '') @ gm @ []) gm"
    by (rule js_includes_append)
  show ?thesis
    using assms w g
    by (simp add: native_outcome e bothServicesFailed_def message_or_String_def)
qed

section \<open>The web flow\<close>

lemma safeGetFileInfo_web:
  "isWeb env \<Longrightarrow> safeGetFileInfo env uri = Inr \<lparr>fi_exists = True, fi_size = 1000000\<rparr>"
  by (simp add: safeGetFileInfo_def)

lemma transcribeAudio_web:
  "isWeb env \<Longrightarrow> uri \<noteq> [] \<Longrightarrow> transcribeAudio env uri = transcribeAudio_web_dispatch env uri"
  by (simp add: transcribeAudio_def safeGetFileInfo_web try_catch_rethrow bind_def await_def
      split: prod.splits)

lemma webGemini_events:
  "ev \<in> set (events (webGeminiAttempt env uri blob gk)) \<Longrightarrow> \<exists>u k m b. ev = GeminiPost u k m b"
  by (auto simp: webGeminiAttempt_def run_simps Let_def split: sum.splits if_splits)

lemma webGemini_success:
  assumes "GeminiPost u k m b \<in> set (events (webGeminiAttempt env uri blob gk))"
    and "axios_post_gemini env u k m b = Inr g" and "g_text g = Some t"
  shows "returns_text (webGeminiAttempt env uri blob gk) t"
  using assms
  by (auto simp: webGeminiAttempt_def returns_text_def run_simps Let_def geminiResult_text
      split: sum.splits if_splits)

lemma webWhisper_events:
  "ev \<in> set (events (webWhisperAttempt env uri blob ok gk)) \<Longrightarrow> \<exists>u k. ev = WhisperPost u k"
  by (auto simp: webWhisperAttempt_def run_simps split: sum.splits if_splits)

lemma webWhisper_success:
  assumes "WhisperPost u k \<in> set (events (webWhisperAttempt env uri blob ok gk))"
    and "axios_post_whisper env u k uri = Inr d" and "w_text d = Some t"
  shows "\<exists>r. outcome (webWhisperAttempt env uri blob ok gk) = Inr (Some r) \<and> t_text r = t"
  using assms
  by (auto simp: webWhisperAttempt_def run_simps
      dest: whisperResult_Inl whisperResult_Inr split: sum.splits if_splits)

lemma web_primary_success:
  assumes "WhisperPost u k \<in> set (events (transcribeAudio_web_dispatch env uri))"
    and "axios_post_whisper env u k uri = Inr d" and "w_text d = Some t"
  shows "returns_text (transcribeAudio_web_dispatch env uri) t
       \<and> (\<forall>ev \<in> set (events (transcribeAudio_web_dispatch env uri)). \<exists>u k. ev = WhisperPost u k)"
proof -
  obtain blob where blob: "fetch_blob env uri = Inr blob"
    using assms(1)
    by (cases "fetch_blob env uri") (auto simp: transcribeAudio_web_dispatch_def run_simps)
  let ?ok = "keyOrNull (getOpenAIKey env)" and ?gk = "keyOrNull (getGeminiKey env)"
  have "WhisperPost u k \<in> set (events (webWhisperAttempt env uri blob ?ok ?gk))"
    using assms(1) blob webGemini_events [of "WhisperPost u k" env uri blob ?gk]
    by (auto simp: transcribeAudio_web_dispatch_def run_simps Let_def
        split: sum.splits if_splits option.splits)
  from webWhisper_success [OF this assms(2,3)]
  obtain r where r: "outcome (webWhisperAttempt env uri blob ?ok ?gk) = Inr (Some r)" "t_text r = t"
    by blast
  have ok: "truthy ?ok"
    using r(1) by (auto simp: webWhisperAttempt_def split: if_splits)
  show ?thesis
    using blob r ok webWhisper_events [of _ env uri blob ?ok ?gk]
    by (auto simp: transcribeAudio_web_dispatch_def returns_text_def run_simps Let_def)
qed

lemma web_secondary_success:
  assumes "GeminiPost u k m b \<in> set (events (transcribeAudio_web_dispatch env uri))"
    and "axios_post_gemini env u k m b = Inr g" and "g_text g = Some t"
  shows "returns_text (transcribeAudio_web_dispatch env uri) t"
proof -
  obtain blob where blob: "fetch_blob env uri = Inr blob"
    using assms(1)
    by (cases "fetch_blob env uri") (auto simp: transcribeAudio_web_dispatch_def run_simps)
  let ?ok = "keyOrNull (getOpenAIKey env)" and ?gk = "keyOrNull (getGeminiKey env)"
  have keys: "truthy ?ok \<or> truthy ?gk"
    using assms(1) blob
    by (auto simp: transcribeAudio_web_dispatch_def run_simps Let_def split: if_splits)
  have "GeminiPost u k m b \<in> set (events (webGeminiAttempt env uri blob ?gk))
      \<and> outcome (webWhisperAttempt env uri blob ?ok ?gk) = Inr None"
    using assms(1) blob webWhisper_events [of "GeminiPost u k m b" env uri blob ?ok ?gk]
    by (auto simp: transcribeAudio_web_dispatch_def run_simps Let_def
        split: sum.splits if_splits option.splits)
  then have g: "GeminiPost u k m b \<in> set (events (webGeminiAttempt env uri blob ?gk))"
    and n: "outcome (webWhisperAttempt env uri blob ?ok ?gk) = Inr None"
    by simp_all
  from webGemini_success [OF g assms(2,3)]
  have "returns_text (webGeminiAttempt env uri blob ?gk) t" .
  then show ?thesis
    using blob n keys
    by (auto simp: transcribeAudio_web_dispatch_def returns_text_def run_simps Let_def)
qed

text \<open>Where an error thrown by the web flow comes from.\<close>

lemma webGemini_error_origin:
  assumes "outcome (webGeminiAttempt env uri blob gk) = Inl e"
  shows "e = proxyRequired
       \<or> FileReader_readAsDataURL env blob = Inl e
       \<or> (\<exists>u k m d. axios_post_gemini env u k m d = Inl e)"
  using assms
  by (auto simp: webGeminiAttempt_def run_simps Let_def split: if_splits sum.splits)

lemma webWhisper_error_origin:
  assumes "outcome (webWhisperAttempt env uri blob ok gk) = Inl e"
  shows "e = splitOfUndefined \<or> (\<exists>u k. axios_post_whisper env u k uri = Inl e)"
  using assms
  by (auto simp: webWhisperAttempt_def whisperResult_def run_simps
      split: if_splits sum.splits option.splits)

lemma web_dispatch_error_origin:
  assumes "outcome (transcribeAudio_web_dispatch env uri) = Inl e"
  shows "fetch_blob env uri = Inl e
       \<or> e = Error ''No valid API keys found. Please configure your API keys in the settings.''
       \<or> e = splitOfUndefined
       \<or> (\<exists>u k. axios_post_whisper env u k uri = Inl e)
       \<or> e = proxyRequired
       \<or> (\<exists>blob. FileReader_readAsDataURL env blob = Inl e)
       \<or> (\<exists>u k m d. axios_post_gemini env u k m d = Inl e)"
proof (cases "fetch_blob env uri")
  case (Inl a)
  with assms show ?thesis
    by (simp add: transcribeAudio_web_dispatch_def run_simps)
next
  case (Inr blob)
  let ?ok = "keyOrNull (getOpenAIKey env)" and ?gk = "keyOrNull (getGeminiKey env)"
  show ?thesis
  proof (cases "\<not> truthy ?ok \<and> \<not> truthy ?gk")
    case True
    with assms Inr show ?thesis
      by (simp add: transcribeAudio_web_dispatch_def run_simps Let_def)
  next
    case False
    show ?thesis
    proof (cases "outcome (webWhisperAttempt env uri blob ?ok ?gk)")
      case (Inl a)
      with assms Inr False have "a = e"
        by (simp add: transcribeAudio_web_dispatch_def run_simps Let_def)
      with webWhisper_error_origin [OF Inl] show ?thesis by blast
    next
      case (Inr returned)
      with assms \<open>fetch_blob env uri = Inr blob\<close> False
      have "outcome (webGeminiAttempt env uri blob ?gk) = Inl e"
        by (auto simp: transcribeAudio_web_dispatch_def run_simps Let_def split: option.splits)
      from webGemini_error_origin [OF this] show ?thesis by blast
    qed
  qed
qed

lemma existence_error_distinct:
  "audioFileDoesNotExist \<noteq> Error ''No audio file provided for transcription''"
  "audioFileDoesNotExist \<noteq> Error ''No valid API keys found. Please configure your API keys in the settings.''"
  "audioFileDoesNotExist \<noteq> splitOfUndefined"
  "audioFileDoesNotExist \<noteq> proxyRequired"
  by (simp_all add: audioFileDoesNotExist_def splitOfUndefined_def proxyRequired_def)

section \<open>The fallback request\<close>

text \<open>A value resolved by \<open>getConfigValue\<close> is never the empty string.\<close>

lemma getConfigValue_nonempty: "getConfigValue env n = Inr v \<Longrightarrow> v \<noteq> []"
  by (auto simp: getConfigValue_def getConfigValue_try_def commonFallback_def Let_def
      truthy_def or_else_def hardcodedOpenAIKey_def hardcodedGeminiKey_def
      split: sum.splits if_splits option.splits)

lemma getValueFromConfig_gemini_url:
  "getValueFromConfig env ''GEMINI_API_URL'' = ''https://generativelanguage.googleapis.com/v1''"
  by (simp add: getValueFromConfig_def)

text \<open>
  The URL of the secondary provider always resolves on the native target (the bundled
  configuration holds a constant for it), and so does its key on the web (lines 41-44 of
  the key manager fall back to an embedded one).
\<close>

lemma native_gemini_url_resolves:
  "\<not> isWeb env \<Longrightarrow> \<exists>u. getGeminiUrl env = Inr u"
  by (auto simp: getGeminiUrl_def getConfigValue_def getConfigValue_try_def commonFallback_def
      Let_def getValueFromConfig_gemini_url split: sum.splits option.splits)

lemma web_gemini_key_truthy:
  "isWeb env \<Longrightarrow> truthy (keyOrNull (getGeminiKey env))"
  by (auto simp: getGeminiKey_def getConfigValue_def getConfigValue_try_def keyOrNull_def
      Let_def truthy_def or_else_def hardcodedGeminiKey_def
      split: sum.splits option.splits if_splits)

text \<open>
  On the native target, a primary request that was sent and rejected makes the primary
  attempt throw; the recording had passed the existence check before the request.
\<close>

lemma whisper_failure:
  assumes "WhisperPost u k \<in> set (events (transcribeAudioWithWhisper env uri))"
    and "axios_post_whisper env u k uri = Inl e" and "\<not> isWeb env"
  shows "(\<exists>e'. outcome (transcribeAudioWithWhisper env uri) = Inl e')
       \<and> (\<exists>info. safeGetFileInfo env uri = Inr info \<and> fi_exists info)"
  using assms
  by (auto simp: transcribeAudioWithWhisper_def transcribeAudioWithWhisper_try_def run_simps
      Let_def split: sum.splits if_splits)

lemma gemini_request_sent:
  assumes "\<not> isWeb env" and "getGeminiKey env = Inr k"
    and "safeGetFileInfo env uri = Inr info" and "fi_exists info"
    and "FileSystem_readAsStringAsync env uri = Inr b"
  shows "\<exists>u m. events (transcribeAudioWithGemini env uri) = [GeminiPost u k m (Some b)]"
proof -
  obtain url where url: "getGeminiUrl env = Inr url"
    using native_gemini_url_resolves [OF assms(1)] by blast
  have k: "k \<noteq> []"
    using assms(2) by (auto simp: getGeminiKey_def dest: getConfigValue_nonempty)
  show ?thesis
    using assms url k
    by (auto simp: transcribeAudioWithGemini_def transcribeAudioWithGemini_try_def run_simps
        Let_def safeReadAsBase64_def split: sum.splits)
qed

text \<open>
  The \<open>catch\<close> of lines 549-566 runs the secondary attempt whatever the primary's error
  is, after a delay when that error reads as a rate limit.
\<close>

lemma native_fallback_sent:
  assumes "\<not> isWeb env"
    and "WhisperPost wu wk \<in> set (events (transcribeAudio_native env uri))"
    and "axios_post_whisper env wu wk uri = Inl e"
    and "getGeminiKey env = Inr k"
    and "FileSystem_readAsStringAsync env uri = Inr b"
  shows "\<exists>gu m. GeminiPost gu k m (Some b) \<in> set (events (transcribeAudio_native env uri))"
proof -
  have w: "WhisperPost wu wk \<in> set (events (transcribeAudioWithWhisper env uri))"
    using assms(2) gemini_events [of "WhisperPost wu wk" env uri]
    by (auto simp: native_events split: sum.splits if_splits)
  from whisper_failure [OF w assms(3,1)]
  obtain e' info where f: "outcome (transcribeAudioWithWhisper env uri) = Inl e'"
    and i: "safeGetFileInfo env uri = Inr info" "fi_exists info"
    by blast
  from gemini_request_sent [OF assms(1,4) i assms(5)]
  obtain gu m where "events (transcribeAudioWithGemini env uri) = [GeminiPost gu k m (Some b)]"
    by blast
  with f show ?thesis
    by (auto simp: native_events)
qed

text \<open>
  On the web the \<open>catch\<close> of lines 463-471 swallows the primary's error, the key of the
  secondary provider being there, and the statements of lines 474-526 follow.
\<close>

lemma web_fallback_sent:
  assumes "isWeb env"
    and "WhisperPost wu wk \<in> set (events (transcribeAudio_web_dispatch env uri))"
    and "axios_post_whisper env wu wk uri = Inl e"
    and "\<And>blob. fetch_blob env uri = Inr blob
           \<Longrightarrow> \<exists>dataUrl. FileReader_readAsDataURL env blob = Inr dataUrl"
  shows "\<exists>gu gk m d. GeminiPost gu gk m d \<in> set (events (transcribeAudio_web_dispatch env uri))"
proof -
  obtain blob where blob: "fetch_blob env uri = Inr blob"
    using assms(2)
    by (cases "fetch_blob env uri") (auto simp: transcribeAudio_web_dispatch_def run_simps)
  obtain dataUrl where reader: "FileReader_readAsDataURL env blob = Inr dataUrl"
    using assms(4) [OF blob] by blast
  let ?ok = "keyOrNull (getOpenAIKey env)" and ?gk = "keyOrNull (getGeminiKey env)"
  have gk: "truthy ?gk"
    using assms(1) by (rule web_gemini_key_truthy)
  have w: "WhisperPost wu wk \<in> set (events (webWhisperAttempt env uri blob ?ok ?gk))"
    using assms(2) blob webGemini_events [of "WhisperPost wu wk" env uri blob ?gk]
    by (auto simp: transcribeAudio_web_dispatch_def run_simps Let_def
        split: sum.splits if_splits option.splits)
  have n: "outcome (webWhisperAttempt env uri blob ?ok ?gk) = Inr None"
    using w assms(3) gk
    by (auto simp: webWhisperAttempt_def run_simps split: sum.splits if_splits)
  have "\<exists>gu k m d. events (webGeminiAttempt env uri blob ?gk) = [GeminiPost gu k m d]"
    using gk reader
    by (auto simp: webGeminiAttempt_def run_simps Let_def split: sum.splits)
  then obtain gu k m d
    where g: "events (webGeminiAttempt env uri blob ?gk) = [GeminiPost gu k m d]"
    by blast
  have "GeminiPost gu k m d \<in> set (events (transcribeAudio_web_dispatch env uri))"
    using blob gk n g
    by (simp add: transcribeAudio_web_dispatch_def run_simps Let_def)
  then show ?thesis
    by blast
qed

section \<open>The orchestrator\<close>

lemma transcribeAudio_empty_uri:
  "transcribeAudio env [] = throw (Error ''No audio file provided for transcription'')"
  by (simp add: transcribeAudio_def)

lemma transcribeAudio_on_native:
  "\<not> isWeb env \<Longrightarrow> uri \<noteq> [] \<Longrightarrow> transcribeAudio env uri = transcribeAudio_native env uri"
  by (simp add: transcribeAudio_def)

lemma posted_uri_nonempty:
  "ev \<in> set (events (transcribeAudio env uri)) \<Longrightarrow> uri \<noteq> []"
  by (auto simp: transcribeAudio_def)

text \<open>
  C1: for every audio handle, on the native and on the web target: if the request to the
  primary (Whisper) provider was sent in the run and the provider answered it with a 2xx
  body holding the text \<open>t\<close>, then \<open>transcribeAudio\<close> returns a result whose text is
  \<open>t\<close>, and no request to the secondary (Gemini) provider is sent in that run.
\<close>

theorem C1_primary_success_returns_primary_text:
  assumes "WhisperPost u k \<in> set (events (transcribeAudio env fileUri))"
    and "axios_post_whisper env u k fileUri = Inr d"
    and "w_text d = Some t"
  shows "(\<exists>r. outcome (transcribeAudio env fileUri) = Inr r \<and> t_text r = t)
       \<and> (\<forall>gu gk m b. GeminiPost gu gk m b \<notin> set (events (transcribeAudio env fileUri)))"
proof -
  have ne: "fileUri \<noteq> []"
    using assms(1) by (rule posted_uri_nonempty)
  show ?thesis
  proof (cases "isWeb env")
    case True
    then have eq: "transcribeAudio env fileUri = transcribeAudio_web_dispatch env fileUri"
      using ne by (rule transcribeAudio_web)
    from web_primary_success [OF assms(1) [unfolded eq] assms(2,3)] show ?thesis
      unfolding eq by (auto simp: returns_text_iff)
  next
    case False
    then have eq: "transcribeAudio env fileUri = transcribeAudio_native env fileUri"
      using ne by (rule transcribeAudio_on_native)
    from native_primary_success [OF assms(1) [unfolded eq] assms(2,3)]
      whisper_events [of _ env fileUri]
    show ?thesis
      unfolding eq by (auto simp: returns_text_iff)
  qed
qed

lemma native_primary_run:
  "events (transcribeAudio (target False (Inr whisper_answer) (Inl gemini_down)) recording)
     = [WhisperPost ''https://api.openai.com/v1/audio/transcriptions'' ''sk-stored'']"
  by (simp add: transcribeAudio_def transcribeAudio_native_def transcribeAudioWithWhisper_def
      transcribeAudioWithWhisper_try_def run_simps target_def recording_def getOpenAIKey_def
      getOpenAIUrl_def getConfigValue_def getConfigValue_try_def stored_keys_def truthy_def
      or_else_def commonFallback_def getValueFromConfig_def safeGetFileInfo_def
      whisperResult_def whisper_answer_def)

lemma web_primary_run:
  "events (transcribeAudio (target True (Inr whisper_answer) (Inl gemini_down)) recording)
     = [WhisperPost ''http://localhost:3001/api/whisper'' hardcodedOpenAIKey]"
  by (simp add: transcribeAudio_def transcribeAudio_web_dispatch_def webWhisperAttempt_def
      run_simps target_def recording_def getOpenAIKey_def getGeminiKey_def keyOrNull_def
      getConfigValue_def getConfigValue_try_def truthy_def or_else_def getValueFromConfig_def
      safeGetFileInfo_def whisperResult_def whisper_answer_def PROXY_SERVER_URL_def
      hardcodedOpenAIKey_def hardcodedGeminiKey_def)

theorem C1_primary_success_returns_primary_text_witness:
  "(events (transcribeAudio (target False (Inr whisper_answer) (Inl gemini_down)) recording)
      = [WhisperPost ''https://api.openai.com/v1/audio/transcriptions'' ''sk-stored'']
    \<and> returns_text (transcribeAudio (target False (Inr whisper_answer) (Inl gemini_down)) recording)
          ''Incision made. Wound closed.'')
   \<and> (events (transcribeAudio (target True (Inr whisper_answer) (Inl gemini_down)) recording)
      = [WhisperPost ''http://localhost:3001/api/whisper'' hardcodedOpenAIKey]
    \<and> returns_text (transcribeAudio (target True (Inr whisper_answer) (Inl gemini_down)) recording)
          ''Incision made. Wound closed.'')"
  using C1_primary_success_returns_primary_text
      [of "''https://api.openai.com/v1/audio/transcriptions''" "''sk-stored''"
          "target False (Inr whisper_answer) (Inl gemini_down)" recording whisper_answer
          "''Incision made. Wound closed.''"]
    C1_primary_success_returns_primary_text
      [of "''http://localhost:3001/api/whisper''" hardcodedOpenAIKey
          "target True (Inr whisper_answer) (Inl gemini_down)" recording whisper_answer
          "''Incision made. Wound closed.''"]
  by (simp add: native_primary_run web_primary_run returns_text_iff)
     (simp add: target_def whisper_answer_def)

text \<open>
  C2: for every audio handle, on the native and on the web target: if the request to the
  primary provider was sent and the provider rejected it, with any error, then
  \<open>transcribeAudio\<close> falls back: it sends a request to the secondary (Gemini) provider.
  If that provider answers the request with a 2xx body holding the text \<open>t\<close>, the result
  returned has the text \<open>t\<close>, and no error, so not the primary's, reaches the caller.
  That the secondary request is sent is part of the conclusion. The hypotheses on the
  secondary side are that the request can be prepared from the recording (on the web the
  file reader yields a data URL; on native a key for the provider resolves and the file
  can be read as base64), and that the provider answers what it is sent.
\<close>

theorem C2_secondary_success_returns_secondary_text:
  assumes sent: "WhisperPost wu wk \<in> set (events (transcribeAudio env fileUri))"
    and failed: "axios_post_whisper env wu wk fileUri = Inl whisperError"
    and web_ready: "\<And>blob. isWeb env \<Longrightarrow> fetch_blob env fileUri = Inr blob
         \<Longrightarrow> \<exists>dataUrl. FileReader_readAsDataURL env blob = Inr dataUrl"
    and native_ready: "\<not> isWeb env \<Longrightarrow>
         (\<exists>k. getGeminiKey env = Inr k) \<and> (\<exists>b. FileSystem_readAsStringAsync env fileUri = Inr b)"
    and answered: "\<And>gu gk m d. GeminiPost gu gk m d \<in> set (events (transcribeAudio env fileUri))
         \<Longrightarrow> \<exists>g. axios_post_gemini env gu gk m d = Inr g \<and> g_text g = Some t"
  shows "(\<exists>gu gk m d. GeminiPost gu gk m d \<in> set (events (transcribeAudio env fileUri)))
       \<and> (\<exists>r. outcome (transcribeAudio env fileUri) = Inr r \<and> t_text r = t)
       \<and> (\<forall>e. outcome (transcribeAudio env fileUri) \<noteq> Inl e)"
proof -
  have ne: "fileUri \<noteq> []"
    using sent by (rule posted_uri_nonempty)
  have "\<exists>gu gk m d. GeminiPost gu gk m d \<in> set (events (transcribeAudio env fileUri))
      \<and> returns_text (transcribeAudio env fileUri) t"
  proof (cases "isWeb env")
    case True
    then have eq: "transcribeAudio env fileUri = transcribeAudio_web_dispatch env fileUri"
      using ne by (rule transcribeAudio_web)
    from web_fallback_sent [OF True sent [unfolded eq] failed web_ready [OF True]]
    obtain gu gk m d
      where p: "GeminiPost gu gk m d \<in> set (events (transcribeAudio_web_dispatch env fileUri))"
      by blast
    from answered [unfolded eq, OF p]
    obtain g where g: "axios_post_gemini env gu gk m d = Inr g" "g_text g = Some t"
      by blast
    from web_secondary_success [OF p g] p show ?thesis
      unfolding eq by blast
  next
    case False
    then have eq: "transcribeAudio env fileUri = transcribeAudio_native env fileUri"
      using ne by (rule transcribeAudio_on_native)
    from native_ready [OF False]
    obtain k b
      where kb: "getGeminiKey env = Inr k" "FileSystem_readAsStringAsync env fileUri = Inr b"
      by blast
    from native_fallback_sent [OF False sent [unfolded eq] failed kb]
    obtain gu m
      where p: "GeminiPost gu k m (Some b) \<in> set (events (transcribeAudio_native env fileUri))"
      by blast
    from answered [unfolded eq, OF p]
    obtain g where g: "axios_post_gemini env gu k m (Some b) = Inr g" "g_text g = Some t"
      by blast
    from native_secondary_success [OF p g] p show ?thesis
      unfolding eq by blast
  qed
  then show ?thesis
    by (auto simp: returns_text_iff)
qed

lemma whisper_down_no_rate_limit:
  "\<not> js_includes (''Failed to transcribe audio with Whisper: connect ECONNREFUSED whisper'') ''429''"
  "\<not> js_includes (''Failed to transcribe audio with Whisper: connect ECONNREFUSED whisper'')
       ''rate limit''"
  by code_simp+

lemma native_fallback_run:
  "events (transcribeAudio (target False (Inl whisper_down) (Inr gemini_answer)) recording)
     = [WhisperPost ''https://api.openai.com/v1/audio/transcriptions'' ''sk-stored'',
        GeminiPost ''https://generativelanguage.googleapis.com/v1/models/gemini-pro:transcribeContent''
          ''gm-stored'' ''audio/m4a'' (Some ''QUJD'')]"
proof -
  have ext: "extensionOf recording = ''m4a''"
    by code_simp
  show ?thesis
    using whisper_down_no_rate_limit
    by (simp add: transcribeAudio_def transcribeAudio_native_def transcribeAudioWithWhisper_def
      transcribeAudioWithWhisper_try_def transcribeAudioWithWhisper_catch_def
      transcribeAudioWithGemini_def transcribeAudioWithGemini_try_def
      run_simps target_def getOpenAIKey_def getGeminiKey_def getGeminiUrl_def
      getOpenAIUrl_def getConfigValue_def getConfigValue_try_def stored_keys_def truthy_def
      or_else_def commonFallback_def getValueFromConfig_def safeGetFileInfo_def
      safeReadAsBase64_def whisper_down_def message_or_String_def ext getMimeType_def Let_def)
      (simp add: recording_def)
qed

lemma web_fallback_run:
  "events (transcribeAudio (target True (Inl whisper_down) (Inr gemini_answer)) recording)
     = [WhisperPost ''http://localhost:3001/api/whisper'' hardcodedOpenAIKey,
        GeminiPost ''http://localhost:3001/api/gemini'' hardcodedGeminiKey ''audio/m4a''
          (Some ''QUJD'')]"
proof -
  have ext: "extensionOf recording = ''m4a''"
    by code_simp
  have b64: "at_index (js_split_char CHR '','' ''data:audio/webm;base64,QUJD'') (Suc 0)
      = Some ''QUJD''"
    by code_simp
  have uri: "recording \<noteq> []"
    by (simp add: recording_def)
  show ?thesis
    using uri
    by (simp add: transcribeAudio_def transcribeAudio_web_dispatch_def webWhisperAttempt_def
      webGeminiAttempt_def run_simps target_def getOpenAIKey_def getGeminiKey_def
      keyOrNull_def getConfigValue_def getConfigValue_try_def truthy_def or_else_def
      getValueFromConfig_def safeGetFileInfo_def PROXY_SERVER_URL_def ext b64 getMimeType_def
      Let_def hardcodedOpenAIKey_def hardcodedGeminiKey_def)
qed

text \<open>A primary error that reads as a rate limit: the delay, then the fallback.\<close>

lemma rate_limited_is_rate_limit:
  "instanceof_Error (transcribeAudioWithWhisper_catch whisper_rate_limited)"
  "js_includes (message (transcribeAudioWithWhisper_catch whisper_rate_limited)) ''429''"
  by code_simp+

lemma native_rate_limited_run:
  "events (transcribeAudio (target False (Inl whisper_rate_limited) (Inr gemini_answer)) recording)
     = [WhisperPost ''https://api.openai.com/v1/audio/transcriptions'' ''sk-stored'',
        Wait 1000,
        GeminiPost ''https://generativelanguage.googleapis.com/v1/models/gemini-pro:transcribeContent''
          ''gm-stored'' ''audio/m4a'' (Some ''QUJD'')]"
proof -
  have ext: "extensionOf recording = ''m4a''"
    by code_simp
  show ?thesis
    using rate_limited_is_rate_limit
    by (simp add: transcribeAudio_def transcribeAudio_native_def transcribeAudioWithWhisper_def
      transcribeAudioWithWhisper_try_def
      transcribeAudioWithGemini_def transcribeAudioWithGemini_try_def
      run_simps target_def getOpenAIKey_def getGeminiKey_def getGeminiUrl_def
      getOpenAIUrl_def getConfigValue_def getConfigValue_try_def stored_keys_def truthy_def
      or_else_def commonFallback_def getValueFromConfig_def safeGetFileInfo_def
      safeReadAsBase64_def ext getMimeType_def Let_def)
      (simp add: recording_def)
qed

lemma stored_gemini_key:
  "getGeminiKey (target False w g) = Inr ''gm-stored''"
  by (simp add: getGeminiKey_def getConfigValue_def getConfigValue_try_def target_def
      stored_keys_def truthy_def or_else_def)

theorem C2_secondary_success_returns_secondary_text_witness:
  "(events (transcribeAudio (target False (Inl whisper_down) (Inr gemini_answer)) recording)
      = [WhisperPost ''https://api.openai.com/v1/audio/transcriptions'' ''sk-stored'',
         GeminiPost ''https://generativelanguage.googleapis.com/v1/models/gemini-pro:transcribeContent''
           ''gm-stored'' ''audio/m4a'' (Some ''QUJD'')]
    \<and> returns_text (transcribeAudio (target False (Inl whisper_down) (Inr gemini_answer)) recording)
          ''Patient stable.'')
   \<and> (events (transcribeAudio (target True (Inl whisper_down) (Inr gemini_answer)) recording)
      = [WhisperPost ''http://localhost:3001/api/whisper'' hardcodedOpenAIKey,
         GeminiPost ''http://localhost:3001/api/gemini'' hardcodedGeminiKey ''audio/m4a''
           (Some ''QUJD'')]
    \<and> returns_text (transcribeAudio (target True (Inl whisper_down) (Inr gemini_answer)) recording)
          ''Patient stable.'')
   \<and> (events (transcribeAudio (target False (Inl whisper_rate_limited) (Inr gemini_answer))
         recording)
      = [WhisperPost ''https://api.openai.com/v1/audio/transcriptions'' ''sk-stored'',
         Wait 1000,
         GeminiPost ''https://generativelanguage.googleapis.com/v1/models/gemini-pro:transcribeContent''
           ''gm-stored'' ''audio/m4a'' (Some ''QUJD'')]
    \<and> returns_text
         (transcribeAudio (target False (Inl whisper_rate_limited) (Inr gemini_answer)) recording)
         ''Patient stable.'')"
proof -
  let ?native = "target False (Inl whisper_down) (Inr gemini_answer)"
  let ?web = "target True (Inl whisper_down) (Inr gemini_answer)"
  let ?limited = "target False (Inl whisper_rate_limited) (Inr gemini_answer)"
  have answered: "\<exists>g. axios_post_gemini (target web w (Inr gemini_answer)) gu gk m d = Inr g
      \<and> g_text g = Some ''Patient stable.''" for web w gu gk m d
    by (simp add: target_def gemini_answer_def)
  have reader: "\<exists>dataUrl. FileReader_readAsDataURL (target web w g) blob = Inr dataUrl"
    for web w g blob
    by (simp add: target_def)
  have prepared: "(\<exists>k. getGeminiKey (target False w g) = Inr k)
      \<and> (\<exists>b. FileSystem_readAsStringAsync (target False w g) recording = Inr b)" for w g
    by (simp add: stored_gemini_key) (simp add: target_def)
  have unprepared: "\<not> isWeb ?web \<Longrightarrow>
      (\<exists>k. getGeminiKey ?web = Inr k)
      \<and> (\<exists>b. FileSystem_readAsStringAsync ?web recording = Inr b)"
    by (simp add: target_def)
  have n_sent: "WhisperPost ''https://api.openai.com/v1/audio/transcriptions'' ''sk-stored''
      \<in> set (events (transcribeAudio ?native recording))"
    by (simp add: native_fallback_run)
  have n_failed: "axios_post_whisper ?native ''https://api.openai.com/v1/audio/transcriptions''
      ''sk-stored'' recording = Inl whisper_down"
    by (simp add: target_def)
  have w_sent: "WhisperPost ''http://localhost:3001/api/whisper'' hardcodedOpenAIKey
      \<in> set (events (transcribeAudio ?web recording))"
    by (simp add: web_fallback_run)
  have w_failed: "axios_post_whisper ?web ''http://localhost:3001/api/whisper''
      hardcodedOpenAIKey recording = Inl whisper_down"
    by (simp add: target_def)
  have l_sent: "WhisperPost ''https://api.openai.com/v1/audio/transcriptions'' ''sk-stored''
      \<in> set (events (transcribeAudio ?limited recording))"
    by (simp add: native_rate_limited_run)
  have l_failed: "axios_post_whisper ?limited ''https://api.openai.com/v1/audio/transcriptions''
      ''sk-stored'' recording = Inl whisper_rate_limited"
    by (simp add: target_def)
  have n: "returns_text (transcribeAudio ?native recording) ''Patient stable.''"
    using C2_secondary_success_returns_secondary_text
      [OF n_sent n_failed reader prepared answered]
    by (simp add: returns_text_iff)
  have w: "returns_text (transcribeAudio ?web recording) ''Patient stable.''"
    using C2_secondary_success_returns_secondary_text
      [OF w_sent w_failed reader unprepared answered]
    by (simp add: returns_text_iff)
  have l: "returns_text (transcribeAudio ?limited recording) ''Patient stable.''"
    using C2_secondary_success_returns_secondary_text
      [OF l_sent l_failed reader prepared answered]
    by (simp add: returns_text_iff)
  from n w l show ?thesis
    by (simp only: native_fallback_run web_fallback_run native_rate_limited_run simp_thms)
qed

text \<open>
  When both attempts fail on the native target, the error thrown is the composite one, and
  its message contains the messages of the errors of both attempts (lines 567-579).
\<close>

lemma transcribeAudio_native_both_fail:
  assumes "\<not> isWeb env" and "fileUri \<noteq> []"
    and "outcome (transcribeAudioWithWhisper env fileUri) = Inl whisperError"
    and "outcome (transcribeAudioWithGemini env fileUri) = Inl geminiError"
  shows "\<exists>e. outcome (transcribeAudio env fileUri) = Inl e
           \<and> js_includes (message e) (message whisperError)
           \<and> js_includes (message e) (message geminiError)"
  using native_both_fail [OF assms(3,4)] transcribeAudio_on_native [OF assms(1,2)]
  by auto

text \<open>
  C3 fails on the web target. With the proxied request to the primary provider refused
  and the proxied request to the secondary provider timing out, \<open>transcribeAudio\<close> throws
  the secondary's error as it caught it (lines 527-530 and 539-542): the message of the
  error surfaced does not contain the message of the primary attempt's error.
\<close>

theorem C3_web_surfaces_secondary_error_only:
  "isWeb (target True (Inl whisper_down) (Inl gemini_down))
   \<and> events (transcribeAudio (target True (Inl whisper_down) (Inl gemini_down)) recording)
       = [WhisperPost ''http://localhost:3001/api/whisper'' hardcodedOpenAIKey,
          GeminiPost ''http://localhost:3001/api/gemini'' hardcodedGeminiKey ''audio/m4a''
            (Some ''QUJD'')]
   \<and> outcome (transcribeAudio (target True (Inl whisper_down) (Inl gemini_down)) recording)
       = Inl gemini_down
   \<and> js_includes (message gemini_down) (message gemini_down)
   \<and> \<not> js_includes (message gemini_down) (message whisper_down)"
proof -
  have ext: "extensionOf recording = ''m4a''"
    by code_simp
  have b64: "at_index (js_split_char CHR '','' ''data:audio/webm;base64,QUJD'') (Suc 0)
      = Some ''QUJD''"
    by code_simp
  have uri: "recording \<noteq> []"
    by (simp add: recording_def)
  have msgs: "js_includes (message gemini_down) (message gemini_down)
      \<and> \<not> js_includes (message gemini_down) (message whisper_down)"
    by code_simp
  have run: "transcribeAudio (target True (Inl whisper_down) (Inl gemini_down)) recording
      = ([WhisperPost ''http://localhost:3001/api/whisper'' hardcodedOpenAIKey,
          GeminiPost ''http://localhost:3001/api/gemini'' hardcodedGeminiKey ''audio/m4a''
            (Some ''QUJD'')], Inl gemini_down)"
    using uri
    by (simp add: transcribeAudio_def transcribeAudio_web_dispatch_def webWhisperAttempt_def
      webGeminiAttempt_def target_def getOpenAIKey_def getGeminiKey_def
      keyOrNull_def getConfigValue_def getConfigValue_try_def truthy_def or_else_def
      getValueFromConfig_def safeGetFileInfo_def PROXY_SERVER_URL_def ext b64 getMimeType_def
      Let_def hardcodedOpenAIKey_def hardcodedGeminiKey_def bind_def try_catch_def await_def
      throw_def return_def emit_def postWhisper_def postGemini_def)
  show ?thesis
    using msgs by (simp add: run events_def outcome_def) (simp add: target_def)
qed

text \<open>
  C10: on the web target the file-info probe reports every audio as existing, with the
  fixed size of 1000000 bytes, so the existence check of \<open>transcribeAudio\<close> never fails
  there: the run is the one of the dispatch that follows the check, and the only
  validation of the handle that can fail is the first one, which rejects the empty handle.
  The error \<open>Audio file does not exist\<close> is never thrown by \<open>transcribeAudio\<close> itself on
  the web: it can surface only when a collaborator (the fetch, the file reader, a provider
  request) rejected with that very error.
\<close>

theorem C10_web_existence_check_vacuous:
  assumes "isWeb env"
  shows "safeGetFileInfo env fileUri = Inr \<lparr>fi_exists = True, fi_size = 1000000\<rparr>
       \<and> transcribeAudio env fileUri =
           (if fileUri = [] then throw (Error ''No audio file provided for transcription'')
            else transcribeAudio_web_dispatch env fileUri)
       \<and> (outcome (transcribeAudio env fileUri) = Inl audioFileDoesNotExist \<longrightarrow>
             fetch_blob env fileUri = Inl audioFileDoesNotExist
           \<or> (\<exists>u k. axios_post_whisper env u k fileUri = Inl audioFileDoesNotExist)
           \<or> (\<exists>blob. FileReader_readAsDataURL env blob = Inl audioFileDoesNotExist)
           \<or> (\<exists>u k m d. axios_post_gemini env u k m d = Inl audioFileDoesNotExist))"
proof -
  have probe: "safeGetFileInfo env fileUri = Inr \<lparr>fi_exists = True, fi_size = 1000000\<rparr>"
    using assms by (rule safeGetFileInfo_web)
  have run: "transcribeAudio env fileUri =
      (if fileUri = [] then throw (Error ''No audio file provided for transcription'')
       else transcribeAudio_web_dispatch env fileUri)"
    using assms transcribeAudio_web [of env fileUri]
    by (simp add: transcribeAudio_empty_uri)
  have origin: "fetch_blob env fileUri = Inl audioFileDoesNotExist
      \<or> (\<exists>u k. axios_post_whisper env u k fileUri = Inl audioFileDoesNotExist)
      \<or> (\<exists>blob. FileReader_readAsDataURL env blob = Inl audioFileDoesNotExist)
      \<or> (\<exists>u k m d. axios_post_gemini env u k m d = Inl audioFileDoesNotExist)"
    if thrown: "outcome (transcribeAudio env fileUri) = Inl audioFileDoesNotExist"
  proof (cases "fileUri = []")
    case True
    with thrown run existence_error_distinct(1) show ?thesis
      by simp
  next
    case False
    with thrown run
    have "outcome (transcribeAudio_web_dispatch env fileUri) = Inl audioFileDoesNotExist"
      by simp
    from web_dispatch_error_origin [OF this] existence_error_distinct show ?thesis
      by blast
  qed
  from probe run origin show ?thesis
    by blast
qed

theorem C10_web_existence_check_vacuous_witness:
  "isWeb (target True (Inl whisper_down) (Inl audioFileDoesNotExist))
   \<and> safeGetFileInfo (target True (Inl whisper_down) (Inl audioFileDoesNotExist)) recording
       = Inr \<lparr>fi_exists = True, fi_size = 1000000\<rparr>
   \<and> transcribeAudio (target True (Inl whisper_down) (Inl audioFileDoesNotExist)) recording
       = transcribeAudio_web_dispatch (target True (Inl whisper_down) (Inl audioFileDoesNotExist))
           recording
   \<and> transcribeAudio (target True (Inl whisper_down) (Inl audioFileDoesNotExist)) []
       = throw (Error ''No audio file provided for transcription'')
   \<and> outcome (transcribeAudio (target True (Inl whisper_down) (Inl audioFileDoesNotExist))
        recording) = Inl audioFileDoesNotExist
   \<and> axios_post_gemini (target True (Inl whisper_down) (Inl audioFileDoesNotExist))
        ''http://localhost:3001/api/gemini'' hardcodedGeminiKey ''audio/m4a'' (Some ''QUJD'')
       = Inl audioFileDoesNotExist"
proof -
  let ?env = "target True (Inl whisper_down) (Inl audioFileDoesNotExist)"
  have web: "isWeb ?env"
    by (simp add: target_def)
  have uri: "recording \<noteq> []"
    by (simp add: recording_def)
  have ext: "extensionOf recording = ''m4a''"
    by code_simp
  have b64: "at_index (js_split_char CHR '','' ''data:audio/webm;base64,QUJD'') (Suc 0)
      = Some ''QUJD''"
    by code_simp
  have thrown: "outcome (transcribeAudio_web_dispatch ?env recording) = Inl audioFileDoesNotExist"
    by (simp add: transcribeAudio_web_dispatch_def webWhisperAttempt_def
      webGeminiAttempt_def run_simps target_def getOpenAIKey_def getGeminiKey_def
      keyOrNull_def getConfigValue_def getConfigValue_try_def truthy_def or_else_def
      getValueFromConfig_def PROXY_SERVER_URL_def ext b64 getMimeType_def
      Let_def hardcodedOpenAIKey_def hardcodedGeminiKey_def)
  have post: "axios_post_gemini ?env ''http://localhost:3001/api/gemini'' hardcodedGeminiKey
      ''audio/m4a'' (Some ''QUJD'') = Inl audioFileDoesNotExist"
    by (simp add: target_def)
  show ?thesis
    using C10_web_existence_check_vacuous [OF web, of recording]
      C10_web_existence_check_vacuous [OF web, of "[]"] web uri thrown post
    by simp
qed

section \<open>Releasing the recording\<close>

lemma cleanup_never_throws: "\<exists>s. outcome (cleanupTempFile env st) = Inr s"
  by (auto simp: cleanupTempFile_def safeDeleteFile_def run_simps split: sum.splits option.splits)

lemma cleanup_no_handle:
  "\<not> truthy (tempUri st) \<Longrightarrow> cleanupTempFile env st = return st"
  by (simp add: cleanupTempFile_def try_catch_def return_def)

lemma cleanup_released:
  assumes "release_succeeds env st" and "truthy (tempUri st)"
  shows "\<exists>s. outcome (cleanupTempFile env st) = Inr s \<and> tempUri s = None
           \<and> length (events (cleanupTempFile env st)) = 1"
  using assms
  by (auto simp: cleanupTempFile_def safeDeleteFile_def release_succeeds_def run_simps)

lemma cleanup_release_failed:
  assumes "\<not> release_succeeds env st"
  shows "truthy (tempUri st)
       \<and> outcome (cleanupTempFile env st) = Inr st
       \<and> events (cleanupTempFile env st) = [DeleteAsync (or_else (tempUri st) [])]"
  using assms
  by (auto simp: cleanupTempFile_def safeDeleteFile_def release_succeeds_def run_simps)

text \<open>
  C9, as stated, fails when the release action fails: on a native target on which
  \<open>FileSystem.deleteAsync\<close> rejects, the first \<open>cleanupTempFile\<close> swallows the error and
  leaves the handle stored (the assignment of line 218 is skipped), and the second call
  runs the release action on the same handle again.
\<close>

theorem C9_failed_release_counterexample:
  "outcome (cleanupTempFile undeletable recorded) = Inr recorded
   \<and> tempUri recorded = Some recording
   \<and> events (cleanupTempFile undeletable recorded) = [DeleteAsync recording]
   \<and> events (bind (cleanupTempFile undeletable recorded) (cleanupTempFile undeletable))
       = [DeleteAsync recording, DeleteAsync recording]"
proof -
  have uri: "recording \<noteq> []"
    by (simp add: recording_def)
  have first: "cleanupTempFile undeletable recorded = ([DeleteAsync recording], Inr recorded)"
    using uri
    by (simp add: cleanupTempFile_def safeDeleteFile_def undeletable_def recorded_def target_def
        truthy_def or_else_def bind_def try_catch_def emit_def await_def return_def)
  show ?thesis
    by (simp add: first events_def outcome_def bind_def) (simp add: recorded_def)
qed

text \<open>
  C9 (amended): starting from any adapter state, \<open>cleanupTempFile\<close> never throws, on
  the first call and on the second, and the first call runs at most one release action.
  If no release action of the first call fails (always so on the web, and on a state
  with no handle stored, where none runs), then after the first call no handle is stored,
  and the second call runs no release action and leaves the state as it is. If the
  release action of the first call fails, the error is swallowed and the handle stays
  stored: the state is unchanged, and the second call runs the release action on the same
  handle again, again without throwing.
\<close>

theorem C9_cleanup_idempotent:
  "\<exists>s1. outcome (cleanupTempFile env st) = Inr s1
      \<and> length (events (cleanupTempFile env st)) \<le> 1
      \<and> (\<exists>s2. outcome (cleanupTempFile env s1) = Inr s2)
      \<and> (release_succeeds env st \<longrightarrow>
            \<not> truthy (tempUri s1)
          \<and> (truthy (tempUri st) \<longrightarrow> tempUri s1 = None)
          \<and> events (cleanupTempFile env s1) = []
          \<and> outcome (cleanupTempFile env s1) = Inr s1)
      \<and> (\<not> release_succeeds env st \<longrightarrow>
            s1 = st
          \<and> truthy (tempUri s1)
          \<and> events (cleanupTempFile env st) = [DeleteAsync (or_else (tempUri st) [])]
          \<and> events (cleanupTempFile env s1) = [DeleteAsync (or_else (tempUri st) [])]
          \<and> outcome (cleanupTempFile env s1) = Inr s1)"
proof -
  obtain s1 where s1: "outcome (cleanupTempFile env st) = Inr s1"
    using cleanup_never_throws by blast
  have one: "length (events (cleanupTempFile env st)) \<le> 1"
    by (auto simp: cleanupTempFile_def safeDeleteFile_def run_simps
        split: sum.splits option.splits)
  have two: "\<exists>s2. outcome (cleanupTempFile env s1) = Inr s2"
    by (rule cleanup_never_throws)
  have ok: "\<not> truthy (tempUri s1) \<and> (truthy (tempUri st) \<longrightarrow> tempUri s1 = None)
      \<and> events (cleanupTempFile env s1) = [] \<and> outcome (cleanupTempFile env s1) = Inr s1"
    if r: "release_succeeds env st"
  proof -
    have cleared: "\<not> truthy (tempUri s1) \<and> (truthy (tempUri st) \<longrightarrow> tempUri s1 = None)"
    proof (cases "truthy (tempUri st)")
      case True
      from cleanup_released [OF r True] s1 show ?thesis
        by (auto simp: truthy_def)
    next
      case False
      with s1 show ?thesis
        by (simp add: cleanup_no_handle)
    qed
    then have "cleanupTempFile env s1 = return s1"
      by (simp add: cleanup_no_handle)
    with cleared show ?thesis by simp
  qed
  have failed: "s1 = st \<and> truthy (tempUri s1)
      \<and> events (cleanupTempFile env st) = [DeleteAsync (or_else (tempUri st) [])]
      \<and> events (cleanupTempFile env s1) = [DeleteAsync (or_else (tempUri st) [])]
      \<and> outcome (cleanupTempFile env s1) = Inr s1"
    if f: "\<not> release_succeeds env st"
    using cleanup_release_failed [OF f] s1 by simp
  from s1 one two ok failed show ?thesis by blast
qed

theorem C9_cleanup_idempotent_witness:
  "(release_succeeds (target False (Inl whisper_down) (Inl gemini_down)) recorded
    \<and> outcome (cleanupTempFile (target False (Inl whisper_down) (Inl gemini_down)) recorded)
        = Inr \<lparr>tempUri = None, webAudioBlob = None\<rparr>
    \<and> events (cleanupTempFile (target False (Inl whisper_down) (Inl gemini_down)) recorded)
        = [DeleteAsync recording]
    \<and> events (cleanupTempFile (target False (Inl whisper_down) (Inl gemini_down))
         \<lparr>tempUri = None, webAudioBlob = None\<rparr>) = []
    \<and> outcome (cleanupTempFile (target False (Inl whisper_down) (Inl gemini_down))
         \<lparr>tempUri = None, webAudioBlob = None\<rparr>)
        = Inr \<lparr>tempUri = None, webAudioBlob = None\<rparr>)
   \<and> (release_succeeds undeletable \<lparr>tempUri = None, webAudioBlob = None\<rparr>
    \<and> events (cleanupTempFile undeletable \<lparr>tempUri = None, webAudioBlob = None\<rparr>) = []
    \<and> outcome (cleanupTempFile undeletable \<lparr>tempUri = None, webAudioBlob = None\<rparr>)
        = Inr \<lparr>tempUri = None, webAudioBlob = None\<rparr>)
   \<and> (\<not> release_succeeds undeletable recorded
    \<and> outcome (cleanupTempFile undeletable recorded) = Inr recorded
    \<and> truthy (tempUri recorded)
    \<and> events (cleanupTempFile undeletable recorded) = [DeleteAsync recording])"
proof -
  let ?env = "target False (Inl whisper_down) (Inl gemini_down)"
  let ?none = "\<lparr>tempUri = None, webAudioBlob = None\<rparr>"
  have uri: "recording \<noteq> []"
    by (simp add: recording_def)
  have r: "release_succeeds ?env recorded"
    by (simp add: release_succeeds_def target_def)
  have first: "cleanupTempFile ?env recorded = ([DeleteAsync recording], Inr ?none)"
    using uri
    by (simp add: cleanupTempFile_def safeDeleteFile_def recorded_def target_def
        truthy_def or_else_def bind_def try_catch_def emit_def await_def return_def)
  have a: "release_succeeds ?env recorded
      \<and> outcome (cleanupTempFile ?env recorded) = Inr ?none
      \<and> events (cleanupTempFile ?env recorded) = [DeleteAsync recording]
      \<and> events (cleanupTempFile ?env ?none) = []
      \<and> outcome (cleanupTempFile ?env ?none) = Inr ?none"
    using C9_cleanup_idempotent [of ?env recorded] r
    by (simp add: first events_def outcome_def)
  have n: "release_succeeds undeletable ?none"
    by (simp add: release_succeeds_def truthy_def)
  have b: "release_succeeds undeletable ?none
      \<and> events (cleanupTempFile undeletable ?none) = []
      \<and> outcome (cleanupTempFile undeletable ?none) = Inr ?none"
    using C9_cleanup_idempotent [of undeletable ?none] n
    by (simp add: cleanup_no_handle truthy_def)
  have f: "\<not> release_succeeds undeletable recorded"
    using uri
    by (simp add: release_succeeds_def undeletable_def recorded_def target_def truthy_def
        or_else_def)
  have c: "\<not> release_succeeds undeletable recorded
      \<and> outcome (cleanupTempFile undeletable recorded) = Inr recorded
      \<and> truthy (tempUri recorded)
      \<and> events (cleanupTempFile undeletable recorded) = [DeleteAsync recording]"
    using C9_cleanup_idempotent [of undeletable recorded] f uri
    by (auto simp: recorded_def or_else_def)
  from a b c show ?thesis by blast
qed

section \<open>The procedure type\<close>

lemma matches_literal_append:
  "length p = length w \<Longrightarrow> map canonical p = map canonical w \<Longrightarrow> matches_literal w (p @ r)"
  by (simp add: matches_literal_def)

text \<open>
  The capture of a labelled pattern. After the group is opened on \<open>s0\<close>, the greedy
  class and the closing of the group capture a prefix of \<open>s0\<close> that ends where the rest of
  the input begins.
\<close>

lemma star_close_capture:
  "match_items [Star c, Close] xs (Some s0) cap = Some r
     \<Longrightarrow> \<exists>n \<le> length xs. r = Some (take (length s0 - n) s0)"
proof (induction xs)
  case Nil
  then show ?case by simp
next
  case (Cons x xs)
  show ?case
  proof (cases "in_class c x")
    case True
    show ?thesis
    proof (cases "match_items [Star c, Close] xs (Some s0) cap")
      case None
      with Cons.prems True have "r = Some (take (length s0 - length (x # xs)) s0)"
        by simp
      then show ?thesis by blast
    next
      case (Some r')
      with Cons.prems True have "r' = r" by simp
      with Cons.IH Some obtain n where "n \<le> length xs" "r = Some (take (length s0 - n) s0)"
        by blast
      then show ?thesis
        by (intro exI [of _ n]) simp
    qed
  next
    case False
    with Cons.prems have "r = Some (take (length s0 - length (x # xs)) s0)"
      by simp
    then show ?thesis by blast
  qed
qed

lemma group_capture:
  assumes "match_items [Open, Plus c, Close] s opened cap = Some r"
  shows "\<exists>capture. r = Some capture \<and> capture \<noteq> []"
proof (cases s)
  case Nil
  with assms show ?thesis by simp
next
  case (Cons x xs)
  with assms have m: "match_items [Star c, Close] xs (Some (x # xs)) cap = Some r"
    by (simp split: if_splits)
  from star_close_capture [OF m]
  obtain n where n: "n \<le> length xs" "r = Some (take (length (x # xs) - n) (x # xs))"
    by blast
  from n(1) have "take (length (x # xs) - n) (x # xs) \<noteq> []"
    by (simp add: Suc_diff_le)
  with n(2) show ?thesis by blast
qed

text \<open>The items before the group pass the capture of what follows them on.\<close>

lemma lit_passes:
  "match_items (Lit w # items) s opened cap = Some r
     \<Longrightarrow> \<exists>s'. match_items items s' opened cap = Some r"
  by (auto split: if_splits)

lemma lazy_star_passes:
  "match_items (LazyStar c # items) s opened cap = Some r
     \<Longrightarrow> \<exists>s'. match_items items s' opened cap = Some r"
proof (induction s)
  case Nil
  then show ?case by auto
next
  case (Cons x xs)
  then show ?case
    by (cases "match_items items (x # xs) opened cap") (auto split: if_splits)
qed

lemma star_passes:
  "match_items (Star c # items) s opened cap = Some r
     \<Longrightarrow> \<exists>s'. match_items items s' opened cap = Some r"
proof (induction s)
  case Nil
  then show ?case by auto
next
  case (Cons x xs)
  then show ?case
    by (cases "match_items (Star c # items) xs opened cap") (auto split: if_splits)
qed

lemma labelled_capture:
  assumes "match_items (labelled label) s None None = Some r"
  shows "\<exists>capture. r = Some capture \<and> capture \<noteq> []"
proof -
  from assms obtain s1
    where "match_items [LazyStar AnyChar, Lit '':'', Star WhiteSpace, Open, Plus NotDotNewline, Close]
             s1 None None = Some r"
    unfolding labelled_def using lit_passes by blast
  then obtain s2
    where "match_items [Lit '':'', Star WhiteSpace, Open, Plus NotDotNewline, Close]
             s2 None None = Some r"
    using lazy_star_passes by blast
  then obtain s3
    where "match_items [Star WhiteSpace, Open, Plus NotDotNewline, Close] s3 None None = Some r"
    using lit_passes by blast
  then obtain s4
    where "match_items [Open, Plus NotDotNewline, Close] s4 None None = Some r"
    using star_passes by blast
  then show ?thesis
    by (rule group_capture)
qed

lemma js_match_is_a_match:
  "js_match pattern s = Some r \<Longrightarrow> \<exists>s'. match_items pattern s' None None = Some r"
proof (induction s)
  case Nil
  then show ?case by auto
next
  case (Cons x xs)
  then show ?case
    by (cases "match_items pattern (x # xs) None None") auto
qed

lemma js_match_labelled:
  assumes "js_match (labelled label) s = Some r"
  shows "\<exists>capture. r = Some capture \<and> capture \<noteq> []"
  using js_match_is_a_match [OF assms] labelled_capture by blast

text \<open>A match somewhere in the content makes \<open>match\<close> return one, the leftmost.\<close>

lemma js_match_finds:
  "match_items pattern rest None None = Some r \<Longrightarrow> \<exists>r'. js_match pattern (pre @ rest) = Some r'"
proof (induction pre)
  case Nil
  then show ?case by (cases rest) auto
next
  case (Cons x pre)
  then show ?case
    by (cases "match_items pattern (x # pre @ rest) None None") auto
qed

lemma js_match_at_index:
  "match_index pattern (pre @ rest) = Some (length pre)
     \<Longrightarrow> js_match pattern (pre @ rest) = match_items pattern rest None None"
proof (induction pre)
  case Nil
  then show ?case
    by (cases rest) (auto split: option.splits)
next
  case (Cons x pre)
  then show ?case
    by (cases "match_items pattern (x # pre @ rest) None None") auto
qed

lemma diagnosis_label: "map canonical ''Diagnosis'' = map canonical ''diagnosis''"
  by code_simp

lemma colon_literal: "matches_literal '':'' ('':'' @ r)"
  by (rule matches_literal_append) simp_all

lemma trim_acute_appendicitis: "trim ''Acute appendicitis'' = ''Acute appendicitis''"
  by code_simp

lemma first_capture_next:
  "js_match p c = None \<Longrightarrow> first_capture (p # ps) c = first_capture ps c"
  by simp

lemma first_capture_here:
  "js_match p c = Some (Some capture) \<Longrightarrow> capture \<noteq> []
     \<Longrightarrow> first_capture (p # ps) c = Some (trim capture)"
  by simp

text \<open>The labelled pattern for the diagnosis, matched at the line.\<close>

lemma match_at_diagnosis_line:
  "match_items (labelled ''diagnosis'') (''Diagnosis: Acute appendicitis.'' @ post) None None
     = Some (Some ''Acute appendicitis'')"
proof -
  have lit: "matches_literal ''diagnosis'' (''Diagnosis'' @ '': Acute appendicitis.'' @ post)"
    by (rule matches_literal_append [OF _ diagnosis_label]) simp
  have rest: "match_items [LazyStar AnyChar, Lit '':'', Star WhiteSpace, Open, Plus NotDotNewline, Close]
       ('': Acute appendicitis.'' @ post) None None = Some (Some ''Acute appendicitis'')"
    using colon_literal [of "'' Acute appendicitis.'' @ post"]
    by (simp add: is_ws_def)
  from lit rest show ?thesis
    by (simp add: labelled_def)
qed

text \<open>The first two patterns of the list decide, in their order.\<close>

lemma procedure_pattern_first:
  assumes "js_match (labelled ''procedure'') content = Some (Some capture)"
  shows "capture \<noteq> [] \<and> extractProcedureType content = trim capture"
proof -
  have ne: "capture \<noteq> []"
    using js_match_labelled [OF assms] by simp
  have "first_capture patterns content = Some (trim capture)"
    unfolding patterns_def by (rule first_capture_here [OF assms ne])
  with ne show ?thesis
    by (simp only: extractProcedureType_def option.case simp_thms)
qed

lemma diagnosis_pattern_second:
  assumes "js_match (labelled ''procedure'') content = None"
    and "js_match (labelled ''diagnosis'') content = Some (Some capture)"
  shows "capture \<noteq> [] \<and> extractProcedureType content = trim capture"
proof -
  have ne: "capture \<noteq> []"
    using js_match_labelled [OF assms(2)] by simp
  have "first_capture patterns content = Some (trim capture)"
    unfolding patterns_def
    by (simp only: first_capture_next [OF assms(1)]) (rule first_capture_here [OF assms(2) ne])
  with ne show ?thesis
    by (simp only: extractProcedureType_def option.case simp_thms)
qed

text \<open>
  C8, as stated, fails: the first pattern of the list is the one for the label
  \<open>procedure\<close>, so a note with a line \<open>Procedure: Appendectomy.\<close> before the line of the
  diagnosis has the procedure type \<open>Appendectomy\<close>; and the pattern for the diagnosis
  takes its leftmost match, so after a line \<open>Differential diagnosis: none.\<close> the
  procedure type is \<open>none\<close>.
\<close>

theorem C8_earlier_label_counterexample:
  "extractProcedureType
     (''Procedure: Appendectomy.'' @ [CHR 0x0A] @ ''Diagnosis: Acute appendicitis.'')
     = ''Appendectomy''
   \<and> extractProcedureType
     (''Differential diagnosis: none.'' @ [CHR 0x0A] @ ''Diagnosis: Acute appendicitis.'')
     = ''none''"
proof -
  have a: "extractProcedureType
     (''Procedure: Appendectomy.'' @ [CHR 0x0A] @ ''Diagnosis: Acute appendicitis.'')
     = ''Appendectomy''"
    by code_simp
  have b: "extractProcedureType
     (''Differential diagnosis: none.'' @ [CHR 0x0A] @ ''Diagnosis: Acute appendicitis.'')
     = ''none''"
    by code_simp
  from a b show ?thesis
    by (rule conjI)
qed

text \<open>
  C8 (amended): for generated content containing the line
  \<open>Diagnosis: Acute appendicitis.\<close>, the ordered list decides the procedure type with its
  first two patterns. If the pattern for the label \<open>procedure\<close> matches somewhere in the
  content, its capture is not empty and the procedure type is that capture, trimmed,
  whatever the line of the diagnosis says. If it matches nowhere, the pattern for the
  label \<open>diagnosis\<close> matches (the line is there), and the procedure type is the trimmed
  capture of its leftmost match; no later pattern and no vocabulary is consulted. So the
  procedure type is exactly \<open>Acute appendicitis\<close> when the pattern for \<open>procedure\<close>
  matches nowhere and the leftmost match of the pattern for \<open>diagnosis\<close> starts at the
  line: the capture stops at the full stop that ends the line.
\<close>

theorem C8_diagnosis_line_extracted:
  "(\<forall>capture. js_match (labelled ''procedure'') (with_diagnosis_line pre post)
                 = Some (Some capture)
       \<longrightarrow> capture \<noteq> []
         \<and> extractProcedureType (with_diagnosis_line pre post) = trim capture)
   \<and> js_match (labelled ''procedure'') (with_diagnosis_line pre post) \<noteq> Some None
   \<and> (js_match (labelled ''procedure'') (with_diagnosis_line pre post) = None
       \<longrightarrow> (\<exists>capture. js_match (labelled ''diagnosis'') (with_diagnosis_line pre post)
                        = Some (Some capture)
              \<and> capture \<noteq> []
              \<and> extractProcedureType (with_diagnosis_line pre post) = trim capture))
   \<and> (js_match (labelled ''procedure'') (with_diagnosis_line pre post) = None
       \<and> match_index (labelled ''diagnosis'') (with_diagnosis_line pre post) = Some (length pre)
       \<longrightarrow> extractProcedureType (with_diagnosis_line pre post) = ''Acute appendicitis'')"
proof -
  let ?content = "with_diagnosis_line pre post"
  have first: "capture \<noteq> [] \<and> extractProcedureType ?content = trim capture"
    if "js_match (labelled ''procedure'') ?content = Some (Some capture)" for capture
    using that by (rule procedure_pattern_first)
  have some: "js_match (labelled ''procedure'') ?content \<noteq> Some None"
    using js_match_labelled [of "''procedure''" ?content None] by auto
  have found: "\<exists>r. js_match (labelled ''diagnosis'') ?content = Some r"
    unfolding with_diagnosis_line_def
    by (rule js_match_finds [OF match_at_diagnosis_line])
  have second: "\<exists>capture. js_match (labelled ''diagnosis'') ?content = Some (Some capture)
      \<and> capture \<noteq> [] \<and> extractProcedureType ?content = trim capture"
    if none: "js_match (labelled ''procedure'') ?content = None"
  proof -
    from found obtain r where r: "js_match (labelled ''diagnosis'') ?content = Some r"
      by blast
    from js_match_labelled [OF r] obtain capture where "r = Some capture"
      by blast
    with r have m: "js_match (labelled ''diagnosis'') ?content = Some (Some capture)"
      by simp
    from diagnosis_pattern_second [OF none m] m show ?thesis
      by blast
  qed
  have line: "extractProcedureType ?content = ''Acute appendicitis''"
    if none: "js_match (labelled ''procedure'') ?content = None"
      and at: "match_index (labelled ''diagnosis'') ?content = Some (length pre)"
  proof -
    have "js_match (labelled ''diagnosis'') ?content
        = match_items (labelled ''diagnosis'') (''Diagnosis: Acute appendicitis.'' @ post)
            None None"
      using at unfolding with_diagnosis_line_def by (rule js_match_at_index)
    then have m: "js_match (labelled ''diagnosis'') ?content = Some (Some ''Acute appendicitis'')"
      by (simp only: match_at_diagnosis_line)
    from diagnosis_pattern_second [OF none m] show ?thesis
      by (simp only: trim_acute_appendicitis)
  qed
  from first some second line show ?thesis
    by blast
qed

theorem C8_diagnosis_line_extracted_witness:
  "(js_match (labelled ''procedure'') (with_diagnosis_line [] []) = None
    \<and> match_index (labelled ''diagnosis'') (with_diagnosis_line [] []) = Some 0
    \<and> extractProcedureType (with_diagnosis_line [] []) = ''Acute appendicitis'')
   \<and> (js_match (labelled ''procedure'') (with_diagnosis_line note_before note_after) = None
    \<and> match_index (labelled ''diagnosis'') (with_diagnosis_line note_before note_after)
         = Some (length note_before)
    \<and> extractProcedureType (with_diagnosis_line note_before note_after) = ''Acute appendicitis'')
   \<and> (js_match (labelled ''procedure'') (with_diagnosis_line procedure_heading []) = None
    \<and> match_index (labelled ''diagnosis'') (with_diagnosis_line procedure_heading [])
         = Some (length procedure_heading)
    \<and> extractProcedureType (with_diagnosis_line procedure_heading []) = ''Acute appendicitis'')
   \<and> (js_match (labelled ''procedure'') (with_diagnosis_line procedure_line [])
         = Some (Some ''Appendectomy'')
    \<and> extractProcedureType (with_diagnosis_line procedure_line []) = ''Appendectomy'')
   \<and> (js_match (labelled ''procedure'') (with_diagnosis_line differential_line []) = None
    \<and> js_match (labelled ''diagnosis'') (with_diagnosis_line differential_line [])
         = Some (Some ''none'')
    \<and> extractProcedureType (with_diagnosis_line differential_line []) = ''none'')"
proof -
  have bare: "js_match (labelled ''procedure'') (with_diagnosis_line [] []) = None"
    "match_index (labelled ''diagnosis'') (with_diagnosis_line [] []) = Some 0"
    by code_simp+
  have plain: "js_match (labelled ''procedure'') (with_diagnosis_line note_before note_after) = None"
    "match_index (labelled ''diagnosis'') (with_diagnosis_line note_before note_after)
       = Some (length note_before)"
    by code_simp+
  have heading: "js_match (labelled ''procedure'') (with_diagnosis_line procedure_heading []) = None"
    "match_index (labelled ''diagnosis'') (with_diagnosis_line procedure_heading [])
       = Some (length procedure_heading)"
    by code_simp+
  have procedure: "js_match (labelled ''procedure'') (with_diagnosis_line procedure_line [])
      = Some (Some ''Appendectomy'')"
    "trim ''Appendectomy'' = ''Appendectomy''"
    by code_simp+
  have differential:
    "js_match (labelled ''procedure'') (with_diagnosis_line differential_line []) = None"
    "js_match (labelled ''diagnosis'') (with_diagnosis_line differential_line [])
       = Some (Some ''none'')"
    "trim ''none'' = ''none''"
    by code_simp+
  have 1: "extractProcedureType (with_diagnosis_line [] []) = ''Acute appendicitis''"
    using C8_diagnosis_line_extracted [of "[]" "[]"] bare by simp
  have 2: "extractProcedureType (with_diagnosis_line note_before note_after)
      = ''Acute appendicitis''"
    using C8_diagnosis_line_extracted [of note_before note_after] plain by simp
  have 3: "extractProcedureType (with_diagnosis_line procedure_heading [])
      = ''Acute appendicitis''"
    using C8_diagnosis_line_extracted [of procedure_heading "[]"] heading by simp
  have 4: "extractProcedureType (with_diagnosis_line procedure_line []) = ''Appendectomy''"
    using C8_diagnosis_line_extracted [of procedure_line "[]"] procedure by simp
  have 5: "extractProcedureType (with_diagnosis_line differential_line []) = ''none''"
    using C8_diagnosis_line_extracted [of differential_line "[]"] differential by simp
  from bare plain heading procedure(1) differential(1,2) 1 2 3 4 5 show ?thesis
    by (simp only: simp_thms)
qed

end
